theory Spec2Isabelle
  imports Complex_Main "HOL-Library.Multiset"
begin

section \<open>Numbers and the runtime\<close>

text \<open>
  The engines are TypeScript. A \<open>number\<close> that the code only adds, multiplies,
  compares and rounds is a \<open>real\<close>; the one quotient whose divisor can be zero
  (the completion percentage) is a \<open>jsnum\<close>, which has the two values a division
  by zero yields. Array lengths are \<open>nat\<close>. A \<open>Date\<close> is its epoch value in
  milliseconds. A string is a list of code units below 256.
\<close>

datatype jsnum = Fin real | Infinity | NaN

definition js_div_length :: "nat \<Rightarrow> nat \<Rightarrow> jsnum" where
  \<comment> \<open>\<open>a.length / b.length\<close>: both operands are non-negative integers\<close>
  "js_div_length p n =
     (if n = 0 then (if p = 0 then NaN else Infinity) else Fin (real p / real n))"

fun js_times :: "jsnum \<Rightarrow> real \<Rightarrow> jsnum" where
  \<comment> \<open>\<open>x * k\<close> for a positive finite constant \<open>k\<close>\<close>
  "js_times (Fin x) k = Fin (x * k)"
| "js_times Infinity k = Infinity"
| "js_times NaN k = NaN"

fun js_ge :: "jsnum \<Rightarrow> real \<Rightarrow> bool" where
  \<comment> \<open>\<open>x >= k\<close>: every comparison with NaN is false\<close>
  "js_ge (Fin x) k = (k \<le> x)"
| "js_ge Infinity k = True"
| "js_ge NaN k = False"

fun js_le :: "jsnum \<Rightarrow> real \<Rightarrow> bool" where
  "js_le (Fin x) k = (x \<le> k)"
| "js_le Infinity k = False"
| "js_le NaN k = False"

text \<open>
  \<open>ProvenanceRecord\<close> of the verification engine, declared here because the runtime
  serialises it.
\<close>

record ProvenanceRecord =
  pr_timestamp :: int
  pr_source :: string
  pr_method :: string
  pr_handler :: string
  pr_verified :: bool

text \<open>
  What the code takes from its runtime is a parameter of the model: the digests of
  \<open>crypto.createHash\<close> (hex strings), \<open>crypto.randomUUID\<close> (the \<open>k\<close>-th call of
  a run), the clock (the \<open>k\<close>-th reading of a run), the two functions of \<open>Date\<close>
  that depend on the host's time zone, and \<open>JSON.stringify\<close> on a provenance record.
\<close>

record runtime =
  rt_sha256 :: "string \<Rightarrow> string"
  rt_sha512 :: "string \<Rightarrow> string"
  rt_md5 :: "string \<Rightarrow> string"
  rt_randomUUID :: "nat \<Rightarrow> string"
  rt_now :: "nat \<Rightarrow> int"
  rt_getFullYear :: "int \<Rightarrow> int"
  rt_dateToString :: "int \<Rightarrow> string"
  rt_stringify :: "ProvenanceRecord \<Rightarrow> string"

text \<open>Decimal rendering of an integer, as a template string does it.\<close>

fun showNat :: "nat \<Rightarrow> string" where
  "showNat n =
     (if n < 10 then [''0123456789'' ! n]
      else showNat (n div 10) @ [''0123456789'' ! (n mod 10)])"

declare showNat.simps [simp del]

definition showInt :: "int \<Rightarrow> string" where
  "showInt i = (if i < 0 then ''-'' @ showNat (nat (- i)) else showNat (nat i))"

datatype error = TypeError

section \<open>Jigsaw Protocol: data\<close>

datatype FragmentType =
    survivor_testimony | physical_evidence | environmental_factor | location_data
  | financial_trace | communication_record | document_artifact | digital_footprint
  | relationship_link | temporal_marker | behavioral_pattern | historical_record
  | scientific_data | oral_history | institutional_record

datatype CaseType =
    missing_person | missing_asset | hidden_wealth | fraud | corruption
  | predatory_lending | financial_crime | identity_theft | money_laundering
  | asset_tracing | witness_protection | historical_investigation

datatype Jurisdiction = IE | UK | NI | SC | WA | EN | ES | EU | GLOBAL

record ChainOfCustodyEntry =
  coc_timestamp :: int
  coc_handler :: string
  coc_action :: string
  coc_location :: string
  coc_hash :: string

text \<open>\<open>TruthFragment\<close>; its \<open>metadata\<close> bag is read by no function modelled here.\<close>

record TruthFragment =
  tf_id :: string
  tf_type :: FragmentType
  tf_content :: string
  tf_source :: string
  tf_verificationLevel :: real
  tf_confidence :: real
  tf_timestamp :: int
  tf_jurisdiction :: Jurisdiction
  tf_chainOfCustody :: "ChainOfCustodyEntry list"
  tf_isReal :: bool
  tf_isTrue :: bool
  tf_isNeeded :: bool

datatype topology = corner | edge | interior | bridge | keystone

datatype direction = north | south | east | west | temporal | causal

record ComponentShape =
  sh_topology :: topology
  sh_complexity :: real
  sh_symmetry :: bool
  sh_uniqueIdentifier :: string

record ComponentEdge =
  ce_direction :: direction
  ce_pattern :: string
  ce_compatibleWith :: "string list"
  ce_incompatibleWith :: "string list"
  ce_strength :: real

record ComponentPosition =
  pos_x :: int
  pos_y :: int
  pos_z :: int
  pos_rotation :: int
  pos_confidence :: int

text \<open>
  \<open>JigsawComponent\<close>. The fields \<open>hash\<close> and \<open>compressionRatio\<close> are written once
  from \<open>JSON.stringify\<close> of the fragment and read by nothing in the engine; they are
  left out.
\<close>

record JigsawComponent =
  jc_id :: string
  jc_fragmentId :: string
  jc_shape :: ComponentShape
  jc_edges :: "ComponentEdge list"
  jc_weight :: real
  jc_position :: "ComponentPosition option"
  jc_locked :: bool
  jc_engineeringSignature :: string

text \<open>The engine object: its only state is the identifier drawn in the constructor.\<close>

record JigsawProtocolEngine =
  engineId :: string

section \<open>Jigsaw Protocol: steps 1 and 2, filtering and compression\<close>

definition filterVerifiedFragments :: "TruthFragment list \<Rightarrow> TruthFragment list" where
  "filterVerifiedFragments fragments =
     filter (\<lambda>f. tf_isReal f = True \<and> tf_isTrue f = True \<and> tf_isNeeded f = True \<and>
                 tf_verificationLevel f \<ge> 5) fragments"

definition determineTopology :: "TruthFragment \<Rightarrow> topology" where
  "determineTopology fragment =
     (case tf_type fragment of
        temporal_marker \<Rightarrow> edge
      | location_data \<Rightarrow> corner
      | relationship_link \<Rightarrow> bridge
      | financial_trace \<Rightarrow> interior
      | survivor_testimony \<Rightarrow> keystone
      | _ \<Rightarrow> interior)"

definition generateShape ::
  "runtime \<Rightarrow> JigsawProtocolEngine \<Rightarrow> TruthFragment \<Rightarrow> ComponentShape" where
  "generateShape rt this fragment =
     (let topology = determineTopology fragment;
          complexity = min 10 (real_of_int
             \<lceil>(tf_verificationLevel fragment + tf_confidence fragment / 10) / 2\<rceil>);
          symmetry = (tf_type fragment = temporal_marker \<or> tf_type fragment = location_data);
          uniqueIdentifier = take 16 (rt_sha256 rt
             (tf_id fragment @ ''-'' @ tf_content fragment @ ''-'' @
              rt_dateToString rt (tf_timestamp fragment)))
      in \<lparr> sh_topology = topology, sh_complexity = complexity, sh_symmetry = symmetry,
           sh_uniqueIdentifier = uniqueIdentifier \<rparr>)"

definition calculateWeight :: "TruthFragment \<Rightarrow> real" where
  "calculateWeight fragment =
     (let weight = tf_verificationLevel fragment * 10;
          weight = weight + tf_confidence fragment / 10;
          weight = (if tf_type fragment = survivor_testimony then weight + 20 else weight);
          weight = (if tf_type fragment = physical_evidence then weight + 15 else weight);
          weight = (if tf_type fragment = document_artifact then weight + 10 else weight);
          weight = (if length (tf_chainOfCustody fragment) > 0 then weight + 5 else weight)
      in min 100 weight)"

fun showFragmentType :: "FragmentType \<Rightarrow> string" where
  "showFragmentType survivor_testimony = ''survivor_testimony''"
| "showFragmentType physical_evidence = ''physical_evidence''"
| "showFragmentType environmental_factor = ''environmental_factor''"
| "showFragmentType location_data = ''location_data''"
| "showFragmentType financial_trace = ''financial_trace''"
| "showFragmentType communication_record = ''communication_record''"
| "showFragmentType document_artifact = ''document_artifact''"
| "showFragmentType digital_footprint = ''digital_footprint''"
| "showFragmentType relationship_link = ''relationship_link''"
| "showFragmentType temporal_marker = ''temporal_marker''"
| "showFragmentType behavioral_pattern = ''behavioral_pattern''"
| "showFragmentType historical_record = ''historical_record''"
| "showFragmentType scientific_data = ''scientific_data''"
| "showFragmentType oral_history = ''oral_history''"
| "showFragmentType institutional_record = ''institutional_record''"

definition generateEngineeringSignature ::
  "runtime \<Rightarrow> JigsawProtocolEngine \<Rightarrow> TruthFragment \<Rightarrow> ComponentShape \<Rightarrow> string" where
  "generateEngineeringSignature rt this fragment shape =
     rt_sha512 rt (tf_id fragment @ ''-'' @ showFragmentType (tf_type fragment) @ ''-'' @
                   sh_uniqueIdentifier shape @ ''-'' @ engineId this)"

text \<open>\<open>uuid\<close> is the value \<open>crypto.randomUUID()\<close> returns for this component.\<close>

definition compressFragment ::
  "runtime \<Rightarrow> JigsawProtocolEngine \<Rightarrow> string \<Rightarrow> TruthFragment \<Rightarrow> JigsawComponent" where
  "compressFragment rt this uuid fragment =
     (let shape = generateShape rt this fragment;
          engineeringSignature = generateEngineeringSignature rt this fragment shape
      in \<lparr> jc_id = ''JC-'' @ uuid,
           jc_fragmentId = tf_id fragment,
           jc_shape = shape,
           jc_edges = [],
           jc_weight = calculateWeight fragment,
           jc_position = None,
           jc_locked = False,
           jc_engineeringSignature = engineeringSignature \<rparr>)"

text \<open>
  \<open>fragments.map(...)\<close> compresses the fragments in order; the \<open>k\<close>-th one draws the
  \<open>k\<close>-th UUID of the run.
\<close>

definition compressFragments ::
  "runtime \<Rightarrow> JigsawProtocolEngine \<Rightarrow> TruthFragment list \<Rightarrow> JigsawComponent list" where
  "compressFragments rt this fragments =
     map (\<lambda>(k, fragment). compressFragment rt this (rt_randomUUID rt k) fragment)
         (enumerate 0 fragments)"

section \<open>Jigsaw Protocol: step 3, edges\<close>

definition shapesCanConnect :: "ComponentShape \<Rightarrow> ComponentShape \<Rightarrow> direction \<Rightarrow> bool" where
  "shapesCanConnect shape1 shape2 dir =
     (if sh_topology shape1 = corner \<and> sh_topology shape2 = edge then True
      else if sh_topology shape1 = edge \<and> sh_topology shape2 = interior then True
      else if sh_topology shape1 = bridge \<or> sh_topology shape2 = bridge then True
      else if sh_topology shape1 = keystone \<and> sh_complexity shape2 \<ge> 7 then True
      else if sh_topology shape1 = interior \<and> sh_topology shape2 = interior then True
      else if dir = temporal then True
      else if dir = causal then \<bar>sh_complexity shape1 - sh_complexity shape2\<bar> \<le> 2
      else False)"

fun showDirection :: "direction \<Rightarrow> string" where
  "showDirection north = ''north''"
| "showDirection south = ''south''"
| "showDirection east = ''east''"
| "showDirection west = ''west''"
| "showDirection temporal = ''temporal''"
| "showDirection causal = ''causal''"

definition generateEdgePattern :: "runtime \<Rightarrow> JigsawComponent \<Rightarrow> direction \<Rightarrow> string" where
  "generateEdgePattern rt component dir =
     take 8 (rt_md5 rt (jc_id component @ ''-'' @ showDirection dir @ ''-'' @
                        sh_uniqueIdentifier (jc_shape component)))"

text \<open>
  The loop over \<open>allComponents\<close> skips the index of the component itself and sorts the
  identifier of every other component into one of two lists, in array order.
\<close>

definition findCompatibleComponents ::
  "JigsawComponent \<Rightarrow> direction \<Rightarrow> string \<Rightarrow> JigsawComponent list \<Rightarrow> nat \<Rightarrow>
   string list \<times> string list" where
  "findCompatibleComponents component dir pattern allComponents currentIndex =
     (let others = map snd (filter (\<lambda>(i, other). i \<noteq> currentIndex) (enumerate 0 allComponents));
          compatible = map jc_id
            (filter (\<lambda>other. shapesCanConnect (jc_shape component) (jc_shape other) dir) others);
          incompatible = map jc_id
            (filter (\<lambda>other. \<not> shapesCanConnect (jc_shape component) (jc_shape other) dir) others)
      in (compatible, incompatible))"

definition calculateEdgeStrength :: "JigsawComponent \<Rightarrow> direction \<Rightarrow> real" where
  "calculateEdgeStrength component dir =
     (let strength = 50;
          strength = (if dir = temporal then strength + 20 else strength);
          strength = (if dir = causal then strength + 25 else strength);
          strength = strength + sh_complexity (jc_shape component) * 3;
          strength = (if \<not> sh_symmetry (jc_shape component) then strength + 10 else strength)
      in min 100 strength)"

definition directions :: "direction list" where
  "directions = [north, south, east, west, temporal, causal]"

definition calculateEdges ::
  "runtime \<Rightarrow> JigsawComponent \<Rightarrow> JigsawComponent list \<Rightarrow> nat \<Rightarrow> ComponentEdge list" where
  "calculateEdges rt component allComponents currentIndex =
     map (\<lambda>dir.
            let pattern = generateEdgePattern rt component dir;
                (compatible, incompatible) =
                  findCompatibleComponents component dir pattern allComponents currentIndex
            in \<lparr> ce_direction = dir, ce_pattern = pattern, ce_compatibleWith = compatible,
                 ce_incompatibleWith = incompatible,
                 ce_strength = calculateEdgeStrength component dir \<rparr>)
         directions"

definition engineerEdges :: "runtime \<Rightarrow> JigsawComponent list \<Rightarrow> JigsawComponent list" where
  "engineerEdges rt components =
     map (\<lambda>(index, component).
            component\<lparr> jc_edges := calculateEdges rt component components index \<rparr>)
         (enumerate 0 components)"

section \<open>Jigsaw Protocol: the picture\<close>

datatype conclusionType = finding | inference | recommendation | warning | certainty

text \<open>
  \<open>PictureGap\<close> and \<open>Conclusion\<close>. Their \<open>id\<close> is a fresh UUID that nothing reads,
  and the statement and legal implications of a conclusion are fixed prose; these are
  left out.
\<close>

record PictureGap =
  gap_location :: ComponentPosition
  gap_requiredShape :: ComponentShape
  gap_requiredEdges :: "ComponentEdge list"
  gap_possibleSources :: "string list"
  gap_priority :: int
  gap_description :: string

record Conclusion =
  con_type :: conclusionType
  con_supportingComponents :: "string list"
  con_confidence :: jsnum
  con_courtReady :: bool
  con_humanVerified :: bool

text \<open>
  \<open>Picture\<close>. The arrays \<open>components\<close>, \<open>placedComponents\<close> and
  \<open>unplacedComponents\<close> hold references to the same component objects, and placing a
  component assigns to the object. So the objects live in \<open>pic_heap\<close>, a reference is
  an index into it, and the three arrays are lists of references. The picture's own
  identifier, narrative text, hash and dates are left out.
\<close>

record Picture =
  pic_caseId :: string
  pic_caseType :: CaseType
  pic_title :: string
  pic_heap :: "JigsawComponent list"
  pic_components :: "nat list"
  pic_placedComponents :: "nat list"
  pic_unplacedComponents :: "nat list"
  pic_completionPercentage :: jsnum
  pic_gaps :: "PictureGap list"
  pic_conclusions :: "Conclusion list"
  pic_courtReady :: bool
  pic_humanReviewRequired :: bool

definition initializePicture ::
  "string \<Rightarrow> CaseType \<Rightarrow> string \<Rightarrow> JigsawComponent list \<Rightarrow> Picture" where
  "initializePicture caseId caseType caseTitle components =
     \<lparr> pic_caseId = caseId, pic_caseType = caseType, pic_title = caseTitle,
       pic_heap = components,
       pic_components = [0..<length components],
       pic_placedComponents = [],
       pic_unplacedComponents = [0..<length components],
       pic_completionPercentage = Fin 0,
       pic_gaps = [], pic_conclusions = [],
       pic_courtReady = False, pic_humanReviewRequired = False \<rparr>"

section \<open>Jigsaw Protocol: step 5, assembly\<close>

text \<open>The \<open>switch\<close> of \<open>calculateAdjacentPosition\<close>: the neighbour of a position.\<close>

definition adjacentPosition :: "ComponentPosition \<Rightarrow> direction \<Rightarrow> ComponentPosition" where
  "adjacentPosition pos dir =
     (case dir of
        north \<Rightarrow> pos\<lparr> pos_y := pos_y pos + 1, pos_confidence := 90 \<rparr>
      | south \<Rightarrow> pos\<lparr> pos_y := pos_y pos - 1, pos_confidence := 90 \<rparr>
      | east \<Rightarrow> pos\<lparr> pos_x := pos_x pos + 1, pos_confidence := 90 \<rparr>
      | west \<Rightarrow> pos\<lparr> pos_x := pos_x pos - 1, pos_confidence := 90 \<rparr>
      | temporal \<Rightarrow> pos\<lparr> pos_z := pos_z pos + 1, pos_confidence := 85 \<rparr>
      | causal \<Rightarrow> pos\<lparr> pos_z := pos_z pos - 1, pos_confidence := 85 \<rparr>)"

text \<open>
  \<open>placed.position!\<close> asserts a position that the type allows to be \<open>null\<close>; reading
  a coordinate of \<open>null\<close> throws a \<open>TypeError\<close>.
\<close>

definition calculateAdjacentPosition ::
  "JigsawComponent \<Rightarrow> direction \<Rightarrow> error + ComponentPosition" where
  "calculateAdjacentPosition placed dir =
     (case jc_position placed of
        None \<Rightarrow> Inl TypeError
      | Some pos \<Rightarrow> Inr (adjacentPosition pos dir))"

text \<open>The inner loop of \<open>findBestPosition\<close>: the edges of the component against one placed component.\<close>

fun edgePlacements ::
  "JigsawComponent \<Rightarrow> JigsawComponent \<Rightarrow> ComponentEdge list \<Rightarrow>
   error + (ComponentPosition \<times> real) list" where
  "edgePlacements component placed [] = Inr []"
| "edgePlacements component placed (e # es) =
     (if jc_id placed \<in> set (ce_compatibleWith e) then
        (case calculateAdjacentPosition placed (ce_direction e) of
           Inl err \<Rightarrow> Inl err
         | Inr position \<Rightarrow>
             (case edgePlacements component placed es of
                Inl err \<Rightarrow> Inl err
              | Inr rest \<Rightarrow>
                  Inr ((position, ce_strength e * (jc_weight component / 100)) # rest)))
      else edgePlacements component placed es)"

text \<open>The outer loop: every placed component in turn.\<close>

fun compatiblePlacements ::
  "JigsawComponent \<Rightarrow> JigsawComponent list \<Rightarrow> error + (ComponentPosition \<times> real) list" where
  "compatiblePlacements component [] = Inr []"
| "compatiblePlacements component (placed # ps) =
     (case edgePlacements component placed (jc_edges component) of
        Inl err \<Rightarrow> Inl err
      | Inr here \<Rightarrow>
          (case compatiblePlacements component ps of
             Inl err \<Rightarrow> Inl err
           | Inr rest \<Rightarrow> Inr (here @ rest)))"

text \<open>
  \<open>Array.prototype.sort\<close> is stable, and so is \<open>sort_key\<close>: sorting by the negated
  score puts the highest score first and keeps the order of equal scores.
\<close>

definition findBestPosition :: "nat \<Rightarrow> Picture \<Rightarrow> error + ComponentPosition option" where
  "findBestPosition component picture =
     (if length (pic_placedComponents picture) = 0 then
        Inr (Some \<lparr> pos_x = 0, pos_y = 0, pos_z = 0, pos_rotation = 0, pos_confidence = 100 \<rparr>)
      else
        (case compatiblePlacements (pic_heap picture ! component)
                (map (\<lambda>r. pic_heap picture ! r) (pic_placedComponents picture)) of
           Inl err \<Rightarrow> Inl err
         | Inr placements \<Rightarrow>
             if length placements = 0 then Inr None
             else Inr (Some (fst (hd (sort_key (\<lambda>(position, score). - score) placements))))))"

text \<open>
  The two branches of the loop body. Placing assigns position and lock to the component
  object, pushes it onto \<open>placedComponents\<close> and shifts it off the queue; otherwise
  the head of the queue moves to its back.
\<close>

definition placeComponent :: "Picture \<Rightarrow> nat \<Rightarrow> ComponentPosition \<Rightarrow> Picture" where
  "placeComponent assembled component position =
     assembled\<lparr>
       pic_heap := (pic_heap assembled)[component :=
          (pic_heap assembled ! component)\<lparr> jc_position := Some position, jc_locked := True \<rparr>],
       pic_placedComponents := pic_placedComponents assembled @ [component],
       pic_unplacedComponents := tl (pic_unplacedComponents assembled) \<rparr>"

definition moveToBack :: "Picture \<Rightarrow> Picture" where
  "moveToBack assembled =
     assembled\<lparr> pic_unplacedComponents :=
       tl (pic_unplacedComponents assembled) @ [hd (pic_unplacedComponents assembled)] \<rparr>"

text \<open>
  The \<open>while\<close> loop of \<open>assemblePicture\<close>, with the iteration counter as an argument
  and in the result: the second component is the value of \<open>iterations\<close> when the loop
  is left, by its condition or by a thrown error.
\<close>

function assembleLoop :: "Picture \<Rightarrow> nat \<Rightarrow> nat \<Rightarrow> (error + Picture) \<times> nat" where
  "assembleLoop assembled iterations maxIterations =
     (if length (pic_unplacedComponents assembled) > 0 \<and> iterations < maxIterations then
        (let component = hd (pic_unplacedComponents assembled) in
         case findBestPosition component assembled of
           Inl err \<Rightarrow> (Inl err, iterations + 1)
         | Inr (Some position) \<Rightarrow>
             assembleLoop (placeComponent assembled component position)
               (iterations + 1) maxIterations
         | Inr None \<Rightarrow>
             assembleLoop (moveToBack assembled) (iterations + 1) maxIterations)
      else (Inr assembled, iterations))"
  by pat_completeness auto
termination
  by (relation "measure (\<lambda>(assembled, iterations, maxIterations). maxIterations - iterations)") auto

declare assembleLoop.simps [simp del]

text \<open>
  \<open>assemblePicture\<close> up to the end of its loop: the budget, the in-place sort by
  descending weight, the loop.
\<close>

definition assembleRun :: "Picture \<Rightarrow> (error + Picture) \<times> nat" where
  "assembleRun picture =
     (let maxIterations = length (pic_unplacedComponents picture) * 10;
          assembled = picture\<lparr> pic_unplacedComponents :=
            sort_key (\<lambda>r. - jc_weight (pic_heap picture ! r)) (pic_unplacedComponents picture) \<rparr>
      in assembleLoop assembled 0 maxIterations)"

definition assemblePicture :: "Picture \<Rightarrow> error + Picture" where
  "assemblePicture picture =
     (case fst (assembleRun picture) of
        Inl err \<Rightarrow> Inl err
      | Inr assembled \<Rightarrow>
          Inr (assembled\<lparr> pic_completionPercentage :=
                 js_times (js_div_length (length (pic_placedComponents assembled))
                                         (length (pic_components assembled))) 100 \<rparr>))"

section \<open>Jigsaw Protocol: steps 6 to 8, gaps, conclusions, readiness\<close>

fun oppositeDirection :: "direction \<Rightarrow> direction" where
  "oppositeDirection north = south"
| "oppositeDirection south = north"
| "oppositeDirection east = west"
| "oppositeDirection west = east"
| "oppositeDirection temporal = temporal"
| "oppositeDirection causal = causal"

definition suggestSources :: "direction \<Rightarrow> string list" where
  "suggestSources dir =
     (case dir of
        temporal \<Rightarrow> [''Historical records'', ''Archives'', ''Witness testimony'',
                      ''Digital timestamps'']
      | causal \<Rightarrow> [''Financial records'', ''Communication logs'', ''Relationship mapping'']
      | _ \<Rightarrow> [''OSINT investigation'', ''Document analysis'', ''Witness interviews''])"

text \<open>\<open>hasConnection\<close>: some other placed component is listed in the edge's \<open>compatibleWith\<close>.\<close>

definition hasConnection :: "Picture \<Rightarrow> JigsawComponent \<Rightarrow> ComponentEdge \<Rightarrow> bool" where
  "hasConnection picture component e =
     list_ex (\<lambda>other. jc_id other \<noteq> jc_id component \<and> jc_id other \<in> set (ce_compatibleWith e))
             (map (\<lambda>r. pic_heap picture ! r) (pic_placedComponents picture))"

definition makeGap :: "JigsawComponent \<Rightarrow> ComponentEdge \<Rightarrow> ComponentPosition \<Rightarrow> PictureGap" where
  "makeGap component e location =
     \<lparr> gap_location = location,
       gap_requiredShape =
         \<lparr> sh_topology = interior, sh_complexity = sh_complexity (jc_shape component),
           sh_symmetry = False,
           sh_uniqueIdentifier = ''NEEDED-'' @ showDirection (ce_direction e) \<rparr>,
       gap_requiredEdges =
         [\<lparr> ce_direction = oppositeDirection (ce_direction e), ce_pattern = ce_pattern e,
            ce_compatibleWith = [jc_id component], ce_incompatibleWith = [],
            ce_strength = ce_strength e \<rparr>],
       gap_possibleSources = suggestSources (ce_direction e),
       gap_priority = \<lceil>jc_weight component / 10\<rceil>,
       gap_description = ''Missing '' @ showDirection (ce_direction e) @
                         '' connection from component '' @ jc_id component \<rparr>"

text \<open>The inner loop of \<open>identifyGaps\<close>: the edges of one placed component.\<close>

fun edgeGaps :: "Picture \<Rightarrow> JigsawComponent \<Rightarrow> ComponentEdge list \<Rightarrow> error + PictureGap list" where
  "edgeGaps picture component [] = Inr []"
| "edgeGaps picture component (e # es) =
     (if \<not> hasConnection picture component e \<and> length (ce_compatibleWith e) > 0 then
        (case calculateAdjacentPosition component (ce_direction e) of
           Inl err \<Rightarrow> Inl err
         | Inr location \<Rightarrow>
             (case edgeGaps picture component es of
                Inl err \<Rightarrow> Inl err
              | Inr rest \<Rightarrow> Inr (makeGap component e location # rest)))
      else edgeGaps picture component es)"

text \<open>The outer loop: every placed component in turn.\<close>

fun componentGaps :: "Picture \<Rightarrow> JigsawComponent list \<Rightarrow> error + PictureGap list" where
  "componentGaps picture [] = Inr []"
| "componentGaps picture (component # cs) =
     (case edgeGaps picture component (jc_edges component) of
        Inl err \<Rightarrow> Inl err
      | Inr here \<Rightarrow>
          (case componentGaps picture cs of
             Inl err \<Rightarrow> Inl err
           | Inr rest \<Rightarrow> Inr (here @ rest)))"

definition identifyGaps :: "Picture \<Rightarrow> error + Picture" where
  "identifyGaps picture =
     (case componentGaps picture
             (map (\<lambda>r. pic_heap picture ! r) (pic_placedComponents picture)) of
        Inl err \<Rightarrow> Inl err
      | Inr gaps \<Rightarrow> Inr (picture\<lparr> pic_gaps := gaps \<rparr>))"

definition drawConclusions :: "Picture \<Rightarrow> Picture" where
  "drawConclusions picture =
     (let placed = map (\<lambda>r. pic_heap picture ! r) (pic_placedComponents picture);
          conclusions = [];
          conclusions =
            (if js_ge (pic_completionPercentage picture) 90 then
               conclusions @
               [\<lparr> con_type = certainty, con_supportingComponents = map jc_id placed,
                  con_confidence = pic_completionPercentage picture,
                  con_courtReady = True, con_humanVerified = False \<rparr>]
             else conclusions);
          conclusions =
            (if length (pic_gaps picture) > 0 then
               conclusions @
               [\<lparr> con_type = recommendation, con_supportingComponents = [],
                  con_confidence = Fin 100,
                  con_courtReady = False, con_humanVerified = False \<rparr>]
             else conclusions);
          highWeightComponents = filter (\<lambda>c. jc_weight c \<ge> 80) placed;
          conclusions =
            (if length highWeightComponents \<ge> 3 then
               conclusions @
               [\<lparr> con_type = finding,
                  con_supportingComponents = map jc_id highWeightComponents,
                  con_confidence = Fin 95,
                  con_courtReady = True, con_humanVerified = False \<rparr>]
             else conclusions)
      in picture\<lparr> pic_conclusions := conclusions \<rparr>)"

definition assessCourtReadiness :: "Picture \<Rightarrow> Picture" where
  "assessCourtReadiness picture =
     (let placed = map (\<lambda>r. pic_heap picture ! r) (pic_placedComponents picture);
          courtReadyConclusions = filter con_courtReady (pic_conclusions picture);
          highConfidenceComponents = filter (\<lambda>c. jc_weight c \<ge> 70) placed;
          courtReady = (js_ge (pic_completionPercentage picture) 80 \<and>
                        length courtReadyConclusions \<ge> 1 \<and>
                        length highConfidenceComponents \<ge> 3);
          humanReviewRequired =
            (list_ex (\<lambda>c. con_type c = certainty) (pic_conclusions picture) \<or>
             js_ge (pic_completionPercentage picture) 95)
      in picture\<lparr> pic_courtReady := courtReady,
                   pic_humanReviewRequired := humanReviewRequired \<rparr>)"

text \<open>
  \<open>calculateCourtReadiness\<close>: a sum of four terms capped by \<open>Math.min(100, score)\<close>.
  The first term carries the completion percentage, so NaN stays NaN and an infinite
  completion is capped to 100.
\<close>

definition calculateCourtReadiness :: "Picture \<Rightarrow> jsnum" where
  "calculateCourtReadiness picture =
     (let placed = map (\<lambda>r. pic_heap picture ! r) (pic_placedComponents picture);
          courtReadyRatio =
            real (length (filter con_courtReady (pic_conclusions picture))) /
            max 1 (real (length (pic_conclusions picture)));
          highWeightRatio =
            real (length (filter (\<lambda>c. jc_weight c \<ge> 70) placed)) /
            max 1 (real (length placed));
          rest = courtReadyRatio * 30 + highWeightRatio * 20 +
                 (if length (pic_gaps picture) = 0 then 10 else 0)
      in case pic_completionPercentage picture of
           Fin completion \<Rightarrow> Fin (min 100 (completion / 100 * 40 + rest))
         | Infinity \<Rightarrow> Fin 100
         | NaN \<Rightarrow> NaN)"

text \<open>
  \<open>JigsawResult\<close>, without the processing time and the two lists of advice text.
\<close>

record JigsawResult =
  res_success :: bool
  res_picture :: Picture
  res_fragmentsProcessed :: nat
  res_componentsCreated :: nat
  res_componentsPlaced :: nat
  res_gapsIdentified :: nat
  res_conclusionsDrawn :: nat
  res_humanReviewRequired :: bool
  res_courtReadiness :: jsnum

text \<open>
  The main entry point. A \<open>TypeError\<close> thrown in a step rejects the promise: \<open>Inl\<close>.
\<close>

definition processFragments ::
  "runtime \<Rightarrow> JigsawProtocolEngine \<Rightarrow> TruthFragment list \<Rightarrow> string \<Rightarrow> CaseType \<Rightarrow> string \<Rightarrow>
   error + JigsawResult" where
  "processFragments rt this fragments caseId caseType caseTitle =
     (let verifiedFragments = filterVerifiedFragments fragments;
          components = compressFragments rt this verifiedFragments;
          engineeredComponents = engineerEdges rt components;
          picture = initializePicture caseId caseType caseTitle engineeredComponents
      in case assemblePicture picture of
           Inl err \<Rightarrow> Inl err
         | Inr assembledPicture \<Rightarrow>
             (case identifyGaps assembledPicture of
                Inl err \<Rightarrow> Inl err
              | Inr pictureWithGaps \<Rightarrow>
                  (let finalPicture = drawConclusions pictureWithGaps;
                       courtReadyPicture = assessCourtReadiness finalPicture
                   in Inr \<lparr> res_success = True,
                            res_picture = courtReadyPicture,
                            res_fragmentsProcessed = length fragments,
                            res_componentsCreated = length components,
                            res_componentsPlaced =
                              length (pic_placedComponents courtReadyPicture),
                            res_gapsIdentified = length (pic_gaps courtReadyPicture),
                            res_conclusionsDrawn = length (pic_conclusions courtReadyPicture),
                            res_humanReviewRequired =
                              pic_humanReviewRequired courtReadyPicture,
                            res_courtReadiness =
                              calculateCourtReadiness courtReadyPicture \<rparr>)))"

section \<open>CVK 1100: data\<close>

text \<open>
  \<open>SourceType\<close>. The source's \<open>'physical_evidence'\<close> is also a fragment type; as a
  source type it is \<open>physical_evidence_source\<close> here.
\<close>

datatype SourceType =
    cave_carving | ancient_manuscript | historical_archive | oral_tradition
  | written_record | legal_document | financial_record | government_database
  | corporate_record | digital_trace | witness_statement | physical_evidence_source
  | scientific_analysis | surveillance_data | communication_intercept | osint_collection

text \<open>\<open>RawInput\<close>, without \<open>rawData\<close> and \<open>metadata\<close>, which no check reads.\<close>

record RawInput =
  ri_id :: string
  ri_source :: string
  ri_sourceType :: SourceType
  ri_content :: string
  ri_timestamp :: int
  ri_jurisdiction :: Jurisdiction
  ri_provenance :: "ProvenanceRecord list"

record CaseContext =
  cc_caseId :: string
  cc_caseType :: string
  cc_startDate :: int
  cc_jurisdictions :: "Jurisdiction list"
  cc_subjects :: "string list"
  cc_keywords :: "string list"

text \<open>
  The check records keep the name of the check, its verdict and its numbers; the
  free-text \<open>evidence\<close> and \<open>reason\<close> are left out.
\<close>

record RealityCheck =
  rc_check :: string
  rc_passed :: bool
  rc_confidence :: real

record TruthCheck =
  tc_check :: string
  tc_passed :: bool
  tc_corroboration :: "string list"
  tc_contradictions :: "string list"
  tc_confidence :: real

record NecessityCheck =
  nc_check :: string
  nc_needed :: bool
  nc_relevance :: real

record CrossReference =
  cr_sourceId :: string
  cr_sourceName :: string
  cr_matches :: bool
  cr_matchScore :: real
  cr_discrepancies :: "string list"

text \<open>
  The anomaly types carry the suffix \<open>_anomaly\<close>: the source's \<open>'temporal'\<close> is also
  a direction of an edge.
\<close>

datatype anomalyType =
  temporal_anomaly | logical_anomaly | statistical_anomaly | behavioral_anomaly
  | documentary_anomaly

datatype severity = low | medium | high | critical

record Anomaly =
  an_type :: anomalyType
  an_description :: string
  an_severity :: severity
  an_requiresHumanReview :: bool

text \<open>\<open>VerificationReasoning\<close>, without the \<open>overallAssessment\<close> text.\<close>

record VerificationReasoning =
  vr_realityChecks :: "RealityCheck list"
  vr_truthChecks :: "TruthCheck list"
  vr_necessityChecks :: "NecessityCheck list"
  vr_crossReferences :: "CrossReference list"
  vr_anomalies :: "Anomaly list"

text \<open>
  \<open>VerificationResult\<close>; \<open>fragment\<close> is \<open>None\<close> for the source's \<open>null\<close>. The
  rejection reason is display text and is left out, here and in \<open>RejectedInput\<close>.
\<close>

record VerificationResult =
  v_inputId :: string
  v_isReal :: bool
  v_isTrue :: bool
  v_isNeeded :: bool
  v_verificationLevel :: int
  v_confidence :: real
  v_reasoning :: VerificationReasoning
  v_fragment :: "TruthFragment option"
  v_rejected :: bool



record CVK1100Engine =
  cvk_engineId :: string

section \<open>CVK 1100: the patterns of actionable intelligence\<close>

text \<open>
  The five regular expressions of \<open>isActionableIntelligence\<close> are sequences of
  the word-boundary assertion and of a character class with a repetition count. In the
  comments below \<open>B\<close> writes the source's word-boundary escape, \<open>D\<close> its digit
  escape and \<open>S\<close> its white-space escape. \<open>matchEnds r s i\<close> is the
  list of positions at which a match of \<open>r\<close> that starts at position \<open>i\<close> of \<open>s\<close>
  can end; \<open>test\<close> succeeds when some start position has a match.
\<close>

datatype regexItem = WordBoundary | Repeat "char \<Rightarrow> bool" nat "nat option"

definition isUpper :: "char \<Rightarrow> bool" where
  "isUpper c = (c \<in> set ''ABCDEFGHIJKLMNOPQRSTUVWXYZ'')"

definition isLower :: "char \<Rightarrow> bool" where
  "isLower c = (c \<in> set ''abcdefghijklmnopqrstuvwxyz'')"

definition isDigit :: "char \<Rightarrow> bool" where
  "isDigit c = (c \<in> set ''0123456789'')"

definition isWordChar :: "char \<Rightarrow> bool" where
  \<comment> \<open>the word characters\<close>
  "isWordChar c = (isUpper c \<or> isLower c \<or> isDigit c \<or> c = CHR ''_'')"

definition isSpace :: "char \<Rightarrow> bool" where
  \<comment> \<open>white space among the code units below 256\<close>
  "isSpace c = (c \<in> {CHR 0x09, CHR 0x0A, CHR 0x0B, CHR 0x0C, CHR 0x0D, CHR 0x20, CHR 0xA0})"

definition wordBoundary :: "string \<Rightarrow> nat \<Rightarrow> bool" where
  "wordBoundary s i =
     ((0 < i \<and> i \<le> length s \<and> isWordChar (s ! (i - 1))) \<noteq>
      (i < length s \<and> isWordChar (s ! i)))"

fun matchEnds :: "regexItem list \<Rightarrow> string \<Rightarrow> nat \<Rightarrow> nat list" where
  "matchEnds [] s i = [i]"
| "matchEnds (WordBoundary # r) s i = (if wordBoundary s i then matchEnds r s i else [])"
| "matchEnds (Repeat cls lo hi # r) s i =
     (let run = length (takeWhile cls (drop i s));
          most = (case hi of None \<Rightarrow> run | Some h \<Rightarrow> min h run)
      in concat (map (\<lambda>n. matchEnds r s (i + n)) [lo..<Suc most]))"

definition regexTest :: "regexItem list \<Rightarrow> string \<Rightarrow> bool" where
  "regexTest r s = list_ex (\<lambda>i. matchEnds r s i \<noteq> []) [0..<Suc (length s)]"

definition exactly :: "nat \<Rightarrow> (char \<Rightarrow> bool) \<Rightarrow> regexItem" where
  "exactly n cls = Repeat cls n (Some n)"

definition optional :: "(char \<Rightarrow> bool) \<Rightarrow> regexItem" where
  "optional cls = Repeat cls 0 (Some 1)"

definition lit :: "char \<Rightarrow> regexItem" where
  "lit c = Repeat (\<lambda>d. d = c) 1 (Some 1)"

definition actionablePatterns :: "regexItem list list" where
  "actionablePatterns =
     [ \<comment> \<open>account numbers: \<open>/B[A-Z]{2}D{6,}B/\<close>\<close>
       [WordBoundary, exactly 2 isUpper, Repeat isDigit 6 None, WordBoundary],
       \<comment> \<open>card numbers: \<open>/BD{4}[-S]?D{4}[-S]?D{4}[-S]?D{4}B/\<close>\<close>
       [WordBoundary, exactly 4 isDigit, optional (\<lambda>c. c = CHR ''-'' \<or> isSpace c),
        exactly 4 isDigit, optional (\<lambda>c. c = CHR ''-'' \<or> isSpace c),
        exactly 4 isDigit, optional (\<lambda>c. c = CHR ''-'' \<or> isSpace c),
        exactly 4 isDigit, WordBoundary],
       \<comment> \<open>emails: \<open>/B[A-Za-z0-9._%+-]+@[A-Za-z0-9.-]+[.][A-Z|a-z]{2,}B/\<close>\<close>
       [WordBoundary,
        Repeat (\<lambda>c. isUpper c \<or> isLower c \<or> isDigit c \<or> c \<in> set ''._%+-'') 1 None,
        lit CHR ''@'',
        Repeat (\<lambda>c. isUpper c \<or> isLower c \<or> isDigit c \<or> c \<in> set ''.-'') 1 None,
        lit CHR ''.'',
        Repeat (\<lambda>c. isUpper c \<or> c = CHR ''|'' \<or> isLower c) 2 None,
        WordBoundary],
       \<comment> \<open>IP addresses: \<open>/BD{1,3}[.]D{1,3}[.]D{1,3}[.]D{1,3}B/\<close>\<close>
       [WordBoundary, Repeat isDigit 1 (Some 3), lit CHR ''.'', Repeat isDigit 1 (Some 3),
        lit CHR ''.'', Repeat isDigit 1 (Some 3), lit CHR ''.'', Repeat isDigit 1 (Some 3),
        WordBoundary],
       \<comment> \<open>IBAN: \<open>/B[A-Z]{2}D{2}[A-Z0-9]{4}D{7}[A-Z0-9]?D?B/i\<close>; the flag \<open>i\<close> lets a letter class match both cases\<close>
       [WordBoundary, exactly 2 (\<lambda>c. isUpper c \<or> isLower c), exactly 2 isDigit,
        exactly 4 (\<lambda>c. isUpper c \<or> isLower c \<or> isDigit c), exactly 7 isDigit,
        optional (\<lambda>c. isUpper c \<or> isLower c \<or> isDigit c), optional isDigit,
        WordBoundary] ]"

definition isActionableIntelligence :: "RawInput \<Rightarrow> CaseContext \<Rightarrow> bool" where
  "isActionableIntelligence input context =
     list_ex (\<lambda>pattern. regexTest pattern (ri_content input)) actionablePatterns"

section \<open>CVK 1100: the checks\<close>

definition validSourceTypes :: "SourceType list" where
  "validSourceTypes =
     [cave_carving, ancient_manuscript, historical_archive, oral_tradition,
      written_record, legal_document, financial_record, government_database,
      corporate_record, digital_trace, witness_statement, physical_evidence_source,
      scientific_analysis, surveillance_data, communication_intercept, osint_collection]"

text \<open>\<open>new Date()\<close> in \<open>performRealityChecks\<close> is the first clock reading of a verification.\<close>

definition performRealityChecks :: "runtime \<Rightarrow> RawInput \<Rightarrow> RealityCheck list" where
  "performRealityChecks rt input =
     (let now = rt_now rt 0;
          inputDate = ri_timestamp input;
          isValidDate = (inputDate \<le> now \<and> rt_getFullYear rt inputDate \<ge> 1900);
          hasProvenance = (length (ri_provenance input) > 0)
      in [ \<lparr> rc_check = ''Source existence verification'',
             rc_passed = (ri_source input \<noteq> []),
             rc_confidence = (if ri_source input \<noteq> [] then 90 else 0) \<rparr>,
           \<lparr> rc_check = ''Content substantiveness'',
             rc_passed = (length (ri_content input) > 10),
             rc_confidence = min 100 (real (length (ri_content input)) / 10) \<rparr>,
           \<lparr> rc_check = ''Temporal validity'',
             rc_passed = isValidDate,
             rc_confidence = (if isValidDate then 95 else 10) \<rparr>,
           \<lparr> rc_check = ''Provenance chain verification'',
             rc_passed = hasProvenance,
             rc_confidence = (if hasProvenance then 85 else 40) \<rparr>,
           \<lparr> rc_check = ''Source type classification'',
             rc_passed = (ri_sourceType input \<in> set validSourceTypes),
             rc_confidence = (if ri_sourceType input \<in> set validSourceTypes then 100 else 0) \<rparr> ])"

fun showJurisdiction :: "Jurisdiction \<Rightarrow> string" where
  "showJurisdiction IE = ''IE''"
| "showJurisdiction UK = ''UK''"
| "showJurisdiction NI = ''NI''"
| "showJurisdiction SC = ''SC''"
| "showJurisdiction WA = ''WA''"
| "showJurisdiction EN = ''EN''"
| "showJurisdiction ES = ''ES''"
| "showJurisdiction EU = ''EU''"
| "showJurisdiction GLOBAL = ''GLOBAL''"

definition performTruthChecks :: "RawInput \<Rightarrow> CaseContext \<Rightarrow> TruthCheck list" where
  "performTruthChecks input context =
     (let temporallyConsistent = (ri_timestamp input \<ge> cc_startDate context);
          jurisdictionValid = (ri_jurisdiction input \<in> set (cc_jurisdictions context))
      in [ \<lparr> tc_check = ''Internal consistency analysis'',
             tc_passed = True,
             tc_corroboration = [''Content is internally consistent''],
             tc_contradictions = [],
             tc_confidence = 80 \<rparr>,
           \<lparr> tc_check = ''External source corroboration'',
             tc_passed = list_ex pr_verified (ri_provenance input),
             tc_corroboration = map pr_source (filter pr_verified (ri_provenance input)),
             tc_contradictions = [],
             tc_confidence = real (length (filter pr_verified (ri_provenance input))) * 20 \<rparr>,
           \<lparr> tc_check = ''Temporal consistency with case timeline'',
             tc_passed = temporallyConsistent,
             tc_corroboration = (if temporallyConsistent then [''Within case timeline''] else []),
             tc_contradictions = (if temporallyConsistent then [] else [''Outside case timeline'']),
             tc_confidence = (if temporallyConsistent then 90 else 30) \<rparr>,
           \<lparr> tc_check = ''Jurisdictional validity'',
             tc_passed = jurisdictionValid,
             tc_corroboration =
               (if jurisdictionValid then [''Valid for '' @ showJurisdiction (ri_jurisdiction input)]
                else []),
             tc_contradictions =
               (if jurisdictionValid then [] else [''Not valid for case jurisdictions'']),
             tc_confidence = (if jurisdictionValid then 95 else 50) \<rparr> ])"

text \<open>
  The table \<open>relevantSourceTypes\<close> with its fallback \<open>|| []\<close>: a case type that is not
  one of its four keys has no relevant source types. (A case type that names a
  property every object inherits, such as \<open>constructor\<close>, is outside this model.)
\<close>

definition relevantSourceTypes :: "string \<Rightarrow> SourceType list" where
  "relevantSourceTypes caseType =
     (if caseType = ''fraud'' then
        [financial_record, legal_document, corporate_record, digital_trace]
      else if caseType = ''missing_person'' then
        [witness_statement, surveillance_data, digital_trace, communication_intercept]
      else if caseType = ''predatory_lending'' then
        [financial_record, legal_document, corporate_record]
      else if caseType = ''corruption'' then
        [financial_record, government_database, communication_intercept]
      else [])"

text \<open>\<open>Date.now()\<close> in \<open>calculateRelevance\<close> is the second clock reading.\<close>

definition calculateRelevance :: "runtime \<Rightarrow> RawInput \<Rightarrow> CaseContext \<Rightarrow> real" where
  "calculateRelevance rt input context =
     (let score = 50;
          relevant = relevantSourceTypes (cc_caseType context);
          score = (if ri_sourceType input \<in> set relevant then score + 30 else score);
          score = (if list_ex pr_verified (ri_provenance input) then score + 15 else score);
          daysSinceInput =
            real_of_int (rt_now rt 1 - ri_timestamp input) / (1000 * 60 * 60 * 24);
          score = (if daysSinceInput < 365 then score + 10 else score)
      in min 100 score)"

definition performNecessityChecks :: "runtime \<Rightarrow> RawInput \<Rightarrow> CaseContext \<Rightarrow> NecessityCheck list" where
  "performNecessityChecks rt input context =
     (let relevanceScore = calculateRelevance rt input context;
          isActionable = isActionableIntelligence input context
      in [ \<lparr> nc_check = ''Case type relevance'',
             nc_needed = (relevanceScore \<ge> 50),
             nc_relevance = relevanceScore \<rparr>,
           \<lparr> nc_check = ''Information uniqueness'',
             nc_needed = True,
             nc_relevance = 80 \<rparr>,
           \<lparr> nc_check = ''Actionable intelligence assessment'',
             nc_needed = isActionable,
             nc_relevance = (if isActionable then 90 else 30) \<rparr> ])"

definition performCrossReferences :: "runtime \<Rightarrow> RawInput \<Rightarrow> CaseContext \<Rightarrow> CrossReference list" where
  "performCrossReferences rt input context =
     map (\<lambda>prov. \<lparr> cr_sourceId = rt_md5 rt (pr_source prov),
                   cr_sourceName = pr_source prov,
                   cr_matches = pr_verified prov,
                   cr_matchScore = (if pr_verified prov then 90 else 40),
                   cr_discrepancies = (if pr_verified prov then [] else [''Unverified source'']) \<rparr>)
         (ri_provenance input)
     @ [ \<lparr> cr_sourceId = cc_caseId context,
           cr_sourceName = ''Case: '' @ cc_caseId context,
           cr_matches = True,
           cr_matchScore = 85,
           cr_discrepancies = [] \<rparr> ]"

text \<open>\<open>new Date()\<close> in \<open>detectAnomalies\<close> is the third clock reading.\<close>

definition detectAnomalies ::
  "runtime \<Rightarrow> RawInput \<Rightarrow> RealityCheck list \<Rightarrow> TruthCheck list \<Rightarrow> Anomaly list" where
  "detectAnomalies rt input realityChecks truthChecks =
     (let anomalies = [];
          anomalies =
            (if ri_timestamp input > rt_now rt 2 then
               anomalies @ [\<lparr> an_type = temporal_anomaly,
                              an_description = ''Timestamp is in the future'',
                              an_severity = critical, an_requiresHumanReview = True \<rparr>]
             else anomalies);
          failedRealityChecks = filter (\<lambda>c. \<not> rc_passed c) realityChecks;
          anomalies =
            (if length failedRealityChecks > 0 then
               anomalies @ [\<lparr> an_type = logical_anomaly,
                              an_description = showNat (length failedRealityChecks) @
                                               '' reality checks failed'',
                              an_severity = (if length failedRealityChecks > 2 then high else medium),
                              an_requiresHumanReview = (length failedRealityChecks > 2) \<rparr>]
             else anomalies);
          contradictions = concat (map tc_contradictions truthChecks);
          anomalies =
            (if length contradictions > 0 then
               anomalies @ [\<lparr> an_type = documentary_anomaly,
                              an_description = showNat (length contradictions) @
                                               '' contradictions detected'',
                              an_severity = high, an_requiresHumanReview = True \<rparr>]
             else anomalies)
      in anomalies)"

section \<open>CVK 1100: level, confidence, fragment\<close>

text \<open>
  The averages divide by the length of a check list. Every caller passes the lists
  built above, of 5, 4, 3 and at least 1 entries, so no divisor is zero.
  \<open>Math.round\<close> rounds a half upwards.
\<close>

definition calculateVerificationLevel ::
  "RealityCheck list \<Rightarrow> TruthCheck list \<Rightarrow> NecessityCheck list \<Rightarrow> CrossReference list \<Rightarrow>
   Anomaly list \<Rightarrow> int" where
  "calculateVerificationLevel realityChecks truthChecks necessityChecks crossReferences anomalies =
     (let level = 5;
          realityScore = real (length (filter rc_passed realityChecks)) /
                         real (length realityChecks);
          level = level + realityScore * 2;
          truthScore = real (length (filter tc_passed truthChecks)) /
                       real (length truthChecks);
          level = level + truthScore * 2;
          crossRefScore = sum_list (map cr_matchScore crossReferences) /
                          (real (length crossReferences) * 100);
          level = level + crossRefScore;
          criticalAnomalies = length (filter (\<lambda>a. an_severity a = critical) anomalies);
          highAnomalies = length (filter (\<lambda>a. an_severity a = high) anomalies);
          level = level - real criticalAnomalies * 2;
          level = level - real highAnomalies
      in max 1 (min 10 \<lfloor>level + 1 / 2\<rfloor>))"

definition calculateConfidence ::
  "RealityCheck list \<Rightarrow> TruthCheck list \<Rightarrow> NecessityCheck list \<Rightarrow> CrossReference list \<Rightarrow> real" where
  "calculateConfidence realityChecks truthChecks necessityChecks crossReferences =
     (let realityConfidence = sum_list (map rc_confidence realityChecks) /
                              real (length realityChecks);
          truthConfidence = sum_list (map tc_confidence truthChecks) /
                            real (length truthChecks);
          necessityRelevance = sum_list (map nc_relevance necessityChecks) /
                               real (length necessityChecks);
          crossRefScore = sum_list (map cr_matchScore crossReferences) /
                          real (length crossReferences)
      in realityConfidence * 0.3 + truthConfidence * 0.3 + necessityRelevance * 0.2 +
         crossRefScore * 0.2)"

fun mapSourceToFragmentType :: "SourceType \<Rightarrow> FragmentType" where
  "mapSourceToFragmentType cave_carving = historical_record"
| "mapSourceToFragmentType ancient_manuscript = historical_record"
| "mapSourceToFragmentType historical_archive = historical_record"
| "mapSourceToFragmentType oral_tradition = oral_history"
| "mapSourceToFragmentType written_record = document_artifact"
| "mapSourceToFragmentType legal_document = document_artifact"
| "mapSourceToFragmentType financial_record = financial_trace"
| "mapSourceToFragmentType government_database = institutional_record"
| "mapSourceToFragmentType corporate_record = institutional_record"
| "mapSourceToFragmentType digital_trace = digital_footprint"
| "mapSourceToFragmentType witness_statement = survivor_testimony"
| "mapSourceToFragmentType physical_evidence_source = physical_evidence"
| "mapSourceToFragmentType scientific_analysis = scientific_data"
| "mapSourceToFragmentType surveillance_data = location_data"
| "mapSourceToFragmentType communication_intercept = communication_record"
| "mapSourceToFragmentType osint_collection = digital_footprint"

text \<open>
  \<open>createTruthFragment\<close> reads the clock a fourth and a fifth time and draws one UUID.
\<close>

definition createTruthFragment ::
  "runtime \<Rightarrow> CVK1100Engine \<Rightarrow> RawInput \<Rightarrow> int \<Rightarrow> real \<Rightarrow> bool \<Rightarrow> bool \<Rightarrow> bool \<Rightarrow>
   TruthFragment" where
  "createTruthFragment rt this input verificationLevel confidence isReal isTrue isNeeded =
     (let fragmentType = mapSourceToFragmentType (ri_sourceType input);
          chainOfCustody =
            map (\<lambda>p. \<lparr> coc_timestamp = pr_timestamp p, coc_handler = pr_handler p,
                       coc_action = pr_method p, coc_location = pr_source p,
                       coc_hash = rt_sha256 rt (rt_stringify rt p) \<rparr>)
                (ri_provenance input);
          chainOfCustody = chainOfCustody @
            [\<lparr> coc_timestamp = rt_now rt 3, coc_handler = ''CVK 1100 Engine'',
               coc_action = ''Verification and extraction'',
               coc_location = cvk_engineId this,
               coc_hash = rt_sha256 rt (ri_id input @ ''-'' @ showInt (rt_now rt 4)) \<rparr>]
      in \<lparr> tf_id = ''TF-'' @ rt_randomUUID rt 0,
           tf_type = fragmentType,
           tf_content = ri_content input,
           tf_source = ri_source input,
           tf_verificationLevel = real_of_int verificationLevel,
           tf_confidence = confidence,
           tf_timestamp = ri_timestamp input,
           tf_jurisdiction = ri_jurisdiction input,
           tf_chainOfCustody = chainOfCustody,
           tf_isReal = isReal, tf_isTrue = isTrue, tf_isNeeded = isNeeded \<rparr>)"

section \<open>CVK 1100: verifying an input\<close>

definition verifyInput ::
  "runtime \<Rightarrow> CVK1100Engine \<Rightarrow> RawInput \<Rightarrow> CaseContext \<Rightarrow> VerificationResult" where
  "verifyInput rt this input context =
     (let realityChecks = performRealityChecks rt input;
          isReal = (list_all rc_passed realityChecks \<and>
                    sum_list (map rc_confidence realityChecks) / real (length realityChecks) \<ge> 70);
          truthChecks = performTruthChecks input context;
          isTrue = (list_all (\<lambda>c. tc_passed c \<or> length (tc_contradictions c) = 0) truthChecks \<and>
                    sum_list (map tc_confidence truthChecks) / real (length truthChecks) \<ge> 70);
          necessityChecks = performNecessityChecks rt input context;
          isNeeded = list_ex (\<lambda>c. nc_needed c \<and> nc_relevance c \<ge> 50) necessityChecks;
          crossReferences = performCrossReferences rt input context;
          anomalies = detectAnomalies rt input realityChecks truthChecks;
          verificationLevel = calculateVerificationLevel
            realityChecks truthChecks necessityChecks crossReferences anomalies;
          confidence = calculateConfidence
            realityChecks truthChecks necessityChecks crossReferences;
          rejected = (\<not> isReal \<or> \<not> isTrue \<or> \<not> isNeeded \<or> confidence < 50);
          reasoning = \<lparr> vr_realityChecks = realityChecks, vr_truthChecks = truthChecks,
                        vr_necessityChecks = necessityChecks,
                        vr_crossReferences = crossReferences, vr_anomalies = anomalies \<rparr>;
          fragment = (if rejected then None
                      else Some (createTruthFragment rt this input verificationLevel confidence
                                   isReal isTrue isNeeded))
      in \<lparr> v_inputId = ri_id input,
           v_isReal = isReal, v_isTrue = isTrue, v_isNeeded = isNeeded,
           v_verificationLevel = verificationLevel,
           v_confidence = confidence,
           v_reasoning = reasoning,
           v_fragment = fragment,
           v_rejected = rejected \<rparr>)"




section \<open>A runtime and inputs for evaluating the model\<close>

text \<open>
  The calendar year of a time stamp on a host in UTC (proleptic Gregorian calendar,
  days counted from 1 March of year 0).
\<close>

definition utcFullYear :: "int \<Rightarrow> int" where
  "utcFullYear ms =
     (let z = ms div 86400000 + 719468;
          era = z div 146097;
          doe = z - era * 146097;
          yoe = (doe - doe div 1460 + doe div 36524 - doe div 146096) div 365;
          doy = doe - (365 * yoe + yoe div 4 - yoe div 100);
          mp = (5 * doy + 2) div 153
      in yoe + era * 400 + (if mp < 10 then 0 else 1))"

text \<open>
  A host in UTC whose clock reads 1 January 2026 and advances one millisecond per
  reading. The digests and the renderings are stand-ins that keep their argument
  visible; the \<open>k\<close>-th UUID is \<open>uuid-k\<close>.
\<close>

definition exampleRuntime :: runtime where
  "exampleRuntime =
     \<lparr> rt_sha256 = (\<lambda>s. ''sha256:'' @ s),
       rt_sha512 = (\<lambda>s. ''sha512:'' @ s),
       rt_md5 = (\<lambda>s. ''md5:'' @ s),
       rt_randomUUID = (\<lambda>k. ''uuid-'' @ showNat k),
       rt_now = (\<lambda>k. 1767225600000 + int k),
       rt_getFullYear = utcFullYear,
       rt_dateToString = showInt,
       rt_stringify = pr_source \<rparr>"

definition exampleEngine :: JigsawProtocolEngine where
  "exampleEngine = \<lparr> engineId = ''JIGSAW-uuid-e'' \<rparr>"

definition otherEngine :: JigsawProtocolEngine where
  "otherEngine = \<lparr> engineId = ''JIGSAW-uuid-f'' \<rparr>"

text \<open>Two bank-transfer fragments of level 8, and one of level 3.\<close>

definition fragmentA :: TruthFragment where
  "fragmentA =
     \<lparr> tf_id = ''TF-1'', tf_type = financial_trace, tf_content = ''Transfer of 5000 EUR'',
       tf_source = ''Bank statement'', tf_verificationLevel = 8, tf_confidence = 90,
       tf_timestamp = 1700000000000, tf_jurisdiction = IE, tf_chainOfCustody = [],
       tf_isReal = True, tf_isTrue = True, tf_isNeeded = True \<rparr>"

definition fragmentB :: TruthFragment where
  "fragmentB = fragmentA\<lparr> tf_id := ''TF-2'', tf_content := ''Transfer of 7000 EUR'',
                          tf_verificationLevel := 7 \<rparr>"

definition fragmentLow :: TruthFragment where
  "fragmentLow = fragmentA\<lparr> tf_id := ''TF-3'', tf_verificationLevel := 3 \<rparr>"

text \<open>A time marker and a location, which become an edge piece and a corner piece.\<close>

definition fragmentMarker :: TruthFragment where
  "fragmentMarker = fragmentA\<lparr> tf_id := ''TF-4'', tf_type := temporal_marker \<rparr>"

definition fragmentPlace :: TruthFragment where
  "fragmentPlace = fragmentA\<lparr> tf_id := ''TF-5'', tf_type := location_data \<rparr>"

text \<open>A second run on another engine instance: other UUIDs, a later clock.\<close>

definition otherRuntime :: runtime where
  "otherRuntime = exampleRuntime\<lparr> rt_randomUUID := (\<lambda>k. ''other-'' @ showNat k),
                                   rt_now := (\<lambda>k. 1767312000000 + int k) \<rparr>"

text \<open>Inputs of the verification engine.\<close>

definition exampleCVK :: CVK1100Engine where
  "exampleCVK = \<lparr> cvk_engineId = ''CVK1100-uuid-c'' \<rparr>"

definition exampleContext :: CaseContext where
  "exampleContext =
     \<lparr> cc_caseId = ''CASE-1'', cc_caseType = ''predatory_lending'',
       cc_startDate = 1600000000000, cc_jurisdictions = [IE, UK],
       cc_subjects = [], cc_keywords = [] \<rparr>"

definition verifiedRecord :: ProvenanceRecord where
  "verifiedRecord =
     \<lparr> pr_timestamp = 1690000000000, pr_source = ''Land registry'',
       pr_method = ''registry lookup'', pr_handler = ''analyst'', pr_verified = True \<rparr>"

definition loanInput :: RawInput where
  "loanInput =
     \<lparr> ri_id = ''IN-1'', ri_source = ''Loan file'', ri_sourceType = legal_document,
       ri_content = ''Loan agreement with variable rate'',
       ri_timestamp = 1700000000000, ri_jurisdiction = IE,
       ri_provenance = [verifiedRecord, verifiedRecord] \<rparr>"

definition emptySourceInput :: RawInput where
  "emptySourceInput = loanInput\<lparr> ri_id := ''IN-2'', ri_source := [] \<rparr>"

definition manySourcesInput :: RawInput where
  "manySourcesInput = loanInput\<lparr> ri_id := ''IN-3'', ri_provenance := replicate 20 verifiedRecord \<rparr>"

section \<open>Well-formed pictures and the invariant of the assembly loop\<close>

text \<open>
  What holds of every picture the engine builds: a reference points to a component
  object, a placed component has a position, and the queue lists no component twice
  and none that is placed.
\<close>

definition wellFormed :: "Picture \<Rightarrow> bool" where
  "wellFormed picture =
     ((\<forall>r \<in> set (pic_placedComponents picture) \<union> set (pic_unplacedComponents picture).
          r < length (pic_heap picture)) \<and>
      (\<forall>r \<in> set (pic_placedComponents picture). jc_position (pic_heap picture ! r) \<noteq> None) \<and>
      distinct (pic_unplacedComponents picture) \<and>
      set (pic_placedComponents picture) \<inter> set (pic_unplacedComponents picture) = {})"

text \<open>A component object with its placement erased: what assembly never changes.\<close>

definition withoutPlacement :: "JigsawComponent \<Rightarrow> JigsawComponent" where
  "withoutPlacement component = component\<lparr> jc_position := None, jc_locked := False \<rparr>"

text \<open>
  The loop invariant, relative to the picture \<open>start\<close> the loop begins with: placed and
  queued components together stay the same, the queue only shrinks, the array
  \<open>components\<close> is not touched, an object changes in its placement only, and a
  component still in the queue is the object it was.
\<close>

definition assemblyInvariant :: "Picture \<Rightarrow> Picture \<Rightarrow> bool" where
  "assemblyInvariant start assembled =
     (wellFormed assembled \<and>
      mset (pic_placedComponents assembled) + mset (pic_unplacedComponents assembled) =
        mset (pic_placedComponents start) + mset (pic_unplacedComponents start) \<and>
      set (pic_unplacedComponents assembled) \<subseteq> set (pic_unplacedComponents start) \<and>
      pic_components assembled = pic_components start \<and>
      map withoutPlacement (pic_heap assembled) = map withoutPlacement (pic_heap start) \<and>
      (\<forall>r \<in> set (pic_unplacedComponents assembled).
          pic_heap assembled ! r = pic_heap start ! r))"

section \<open>The claims as the specification words them\<close>




text \<open>The condition under which \<open>identifyGaps\<close> pushes a gap.\<close>

definition gapByCompatibility :: "Picture \<Rightarrow> JigsawComponent \<Rightarrow> ComponentEdge \<Rightarrow> bool" where
  "gapByCompatibility picture component e =
     (\<not> hasConnection picture component e \<and> length (ce_compatibleWith e) > 0)"

text \<open>
  A picture whose components have no edges yet: the two fragments compressed but not
  engineered. Nothing but the first component can be placed in it.
\<close>

definition queuePicture :: Picture where
  "queuePicture = initializePicture ''CASE-1'' fraud ''Example''
     (compressFragments exampleRuntime exampleEngine [fragmentA, fragmentB])"

text \<open>
  The gaps of a picture by the condition of \<open>identifyGaps\<close>: one gap for every edge of
  a placed component that satisfies the condition, in the order of the two loops.
\<close>

definition emittedGaps :: "Picture \<Rightarrow> PictureGap list" where
  "emittedGaps picture =
     concat (map (\<lambda>c. map (\<lambda>e. makeGap c e (adjacentPosition (the (jc_position c)) (ce_direction e)))
                        (filter (gapByCompatibility picture c) (jc_edges c)))
                 (map (\<lambda>r. pic_heap picture ! r) (pic_placedComponents picture)))"

text \<open>The condition of \<open>filterVerifiedFragments\<close>, as the specification writes it.\<close>

definition reconstructionEligible :: "TruthFragment \<Rightarrow> bool" where
  "reconstructionEligible f =
     (tf_isReal f \<and> tf_isTrue f \<and> tf_isNeeded f \<and> tf_verificationLevel f \<ge> 5)"










section \<open>The assembly loop: no error, the invariant, the budget\<close>

lemma edgePlacements_Inr:
  "jc_position placed \<noteq> None \<Longrightarrow> \<exists>xs. edgePlacements c placed es = Inr xs"
  by (induction es) (auto simp: calculateAdjacentPosition_def split: option.splits)

lemma compatiblePlacements_Inr:
  "\<forall>q \<in> set ps. jc_position q \<noteq> None \<Longrightarrow> \<exists>xs. compatiblePlacements c ps = Inr xs"
proof (induction ps)
  case Nil
  show ?case by simp
next
  case (Cons q ps)
  from Cons.prems have "jc_position q \<noteq> None" by simp
  then obtain here where h: "edgePlacements c q (jc_edges c) = Inr here"
    using edgePlacements_Inr by blast
  from Cons obtain rest where r: "compatiblePlacements c ps = Inr rest" by auto
  show ?case by (simp add: h r)
qed

lemma findBestPosition_Inr:
  assumes "\<forall>r \<in> set (pic_placedComponents p). jc_position (pic_heap p ! r) \<noteq> None"
  shows "\<exists>res. findBestPosition c p = Inr res"
proof -
  have "\<forall>q \<in> set (map (\<lambda>r. pic_heap p ! r) (pic_placedComponents p)). jc_position q \<noteq> None"
    using assms by simp
  then obtain xs where
    "compatiblePlacements (pic_heap p ! c) (map (\<lambda>r. pic_heap p ! r) (pic_placedComponents p)) = Inr xs"
    using compatiblePlacements_Inr by blast
  then show ?thesis by (simp add: findBestPosition_def)
qed

lemma assembleLoop_iterations_le:
  "i \<le> m \<Longrightarrow> snd (assembleLoop p i m) \<le> m"
proof (induction p i m rule: assembleLoop.induct)
  case (1 assembled iterations maxIterations)
  show ?case
    using 1
    by (subst assembleLoop.simps) (auto split: sum.splits option.splits simp: Let_def)
qed

lemma assembleLoop_rule:
  assumes start: "I p"
    and place: "\<And>q pos. I q \<Longrightarrow> pic_unplacedComponents q \<noteq> [] \<Longrightarrow>
        findBestPosition (hd (pic_unplacedComponents q)) q = Inr (Some pos) \<Longrightarrow>
        I (placeComponent q (hd (pic_unplacedComponents q)) pos)"
    and requeue: "\<And>q. I q \<Longrightarrow> pic_unplacedComponents q \<noteq> [] \<Longrightarrow>
        findBestPosition (hd (pic_unplacedComponents q)) q = Inr None \<Longrightarrow> I (moveToBack q)"
    and safe: "\<And>q. I q \<Longrightarrow>
        \<forall>r \<in> set (pic_placedComponents q). jc_position (pic_heap q ! r) \<noteq> None"
  shows "\<exists>a. fst (assembleLoop p i m) = Inr a \<and> I a \<and>
             (pic_unplacedComponents a \<noteq> [] \<longrightarrow> i \<le> m \<longrightarrow> snd (assembleLoop p i m) = m)"
  using start
proof (induction p i m rule: assembleLoop.induct)
  case (1 assembled iterations maxIterations)
  show ?case
  proof (cases "length (pic_unplacedComponents assembled) > 0 \<and> iterations < maxIterations")
    case False
    then show ?thesis
      using "1.prems" by (subst (1 2) assembleLoop.simps) auto
  next
    case True
    obtain res where res: "findBestPosition (hd (pic_unplacedComponents assembled)) assembled = Inr res"
      using findBestPosition_Inr safe[OF "1.prems"] by blast
    show ?thesis
    proof (cases res)
      case None
      have "I (moveToBack assembled)"
        using requeue "1.prems" True res None by auto
      from "1.IH"(1)[OF True refl res None this] res None
      show ?thesis
        using True by (subst (1 2) assembleLoop.simps) (auto simp: Let_def)
    next
      case (Some pos)
      have "I (placeComponent assembled (hd (pic_unplacedComponents assembled)) pos)"
        using place "1.prems" True res Some by auto
      from "1.IH"(2)[OF True refl res Some this] res Some
      show ?thesis
        using True by (subst (1 2) assembleLoop.simps) (auto simp: Let_def)
    qed
  qed
qed

lemma assemblyInvariant_place:
  assumes inv: "assemblyInvariant s q" and ne: "pic_unplacedComponents q \<noteq> []"
  shows "assemblyInvariant s (placeComponent q (hd (pic_unplacedComponents q)) pos)"
proof -
  obtain c rest where q: "pic_unplacedComponents q = c # rest"
    using ne by (cases "pic_unplacedComponents q") auto
  have wf: "wellFormed q" using inv by (simp add: assemblyInvariant_def)
  have c_lt: "c < length (pic_heap q)" using wf q by (simp add: wellFormed_def)
  have c_rest: "c \<notin> set rest" and d_rest: "distinct rest"
    using wf q by (simp_all add: wellFormed_def)
  have c_placed: "c \<notin> set (pic_placedComponents q)"
    using wf q by (auto simp: wellFormed_def)
  have rest_placed: "set (pic_placedComponents q) \<inter> set rest = {}"
    using wf q by (auto simp: wellFormed_def)
  have "wellFormed (placeComponent q c pos)"
    using wf q c_lt c_rest d_rest rest_placed
    by (auto simp: wellFormed_def placeComponent_def nth_list_update)
  moreover have "\<forall>r \<in> set rest. (pic_heap q)[c := v] ! r = pic_heap q ! r" for v
    using c_rest by (metis nth_list_update_neq)
  moreover have "map withoutPlacement ((pic_heap q)[c := (pic_heap q ! c)\<lparr> jc_position := Some pos,
                    jc_locked := True \<rparr>]) = map withoutPlacement (pic_heap q)"
    using c_lt by (simp add: map_update withoutPlacement_def list_update_same_conv)
  ultimately show ?thesis
    using inv q by (auto simp: assemblyInvariant_def placeComponent_def)
qed

lemma assemblyInvariant_moveToBack:
  assumes inv: "assemblyInvariant s q" and ne: "pic_unplacedComponents q \<noteq> []"
  shows "assemblyInvariant s (moveToBack q)"
proof -
  obtain c rest where q: "pic_unplacedComponents q = c # rest"
    using ne by (cases "pic_unplacedComponents q") auto
  show ?thesis
    using inv q by (auto simp: assemblyInvariant_def wellFormed_def moveToBack_def)
qed

lemma assemblyInvariant_refl: "wellFormed p \<Longrightarrow> assemblyInvariant p p"
  by (simp add: assemblyInvariant_def)

lemma assembleLoop_invariant:
  assumes "wellFormed p"
  shows "\<exists>a. fst (assembleLoop p i m) = Inr a \<and> assemblyInvariant p a \<and>
             (pic_unplacedComponents a \<noteq> [] \<longrightarrow> i \<le> m \<longrightarrow> snd (assembleLoop p i m) = m)"
proof (rule assembleLoop_rule[where I = "assemblyInvariant p"])
  show "assemblyInvariant p p" using assms by (rule assemblyInvariant_refl)
next
  fix q pos
  assume "assemblyInvariant p q" "pic_unplacedComponents q \<noteq> []"
  then show "assemblyInvariant p (placeComponent q (hd (pic_unplacedComponents q)) pos)"
    by (rule assemblyInvariant_place)
next
  fix q
  assume "assemblyInvariant p q" "pic_unplacedComponents q \<noteq> []"
  then show "assemblyInvariant p (moveToBack q)"
    by (rule assemblyInvariant_moveToBack)
next
  fix q
  assume "assemblyInvariant p q"
  then show "\<forall>r \<in> set (pic_placedComponents q). jc_position (pic_heap q ! r) \<noteq> None"
    by (simp add: assemblyInvariant_def wellFormed_def)
qed

text \<open>The picture after the in-place sort of the queue.\<close>

lemma wellFormed_sorted:
  "wellFormed p \<Longrightarrow>
   wellFormed (p\<lparr> pic_unplacedComponents := sort_key f (pic_unplacedComponents p) \<rparr>)"
  by (simp add: wellFormed_def)

lemma assembleRun_invariant:
  assumes wf: "wellFormed p"
  shows "\<exists>a. fst (assembleRun p) = Inr a \<and> wellFormed a \<and>
             mset (pic_placedComponents a) + mset (pic_unplacedComponents a) =
               mset (pic_placedComponents p) + mset (pic_unplacedComponents p) \<and>
             set (pic_unplacedComponents a) \<subseteq> set (pic_unplacedComponents p) \<and>
             pic_components a = pic_components p \<and>
             map withoutPlacement (pic_heap a) = map withoutPlacement (pic_heap p) \<and>
             (\<forall>r \<in> set (pic_unplacedComponents a). pic_heap a ! r = pic_heap p ! r) \<and>
             (pic_unplacedComponents a \<noteq> [] \<longrightarrow>
                snd (assembleRun p) = length (pic_unplacedComponents p) * 10)"
proof -
  let ?s = "p\<lparr> pic_unplacedComponents :=
               sort_key (\<lambda>r. - jc_weight (pic_heap p ! r)) (pic_unplacedComponents p) \<rparr>"
  let ?m = "length (pic_unplacedComponents p) * 10"
  have "wellFormed ?s" using wf by (rule wellFormed_sorted)
  from assembleLoop_invariant[OF this, of 0 ?m]
  obtain a where a: "fst (assembleLoop ?s 0 ?m) = Inr a" "assemblyInvariant ?s a"
    "pic_unplacedComponents a \<noteq> [] \<longrightarrow> snd (assembleLoop ?s 0 ?m) = ?m"
    by auto
  have run: "assembleRun p = assembleLoop ?s 0 ?m"
    by (simp add: assembleRun_def Let_def)
  show ?thesis
    using a by (simp add: run assemblyInvariant_def)
qed

lemma assembleRun_iterations_le:
  "snd (assembleRun p) \<le> length (pic_unplacedComponents p) * 10"
  by (simp add: assembleRun_def Let_def assembleLoop_iterations_le)

section \<open>Gaps by compatibility, and the whole run\<close>

lemma initializePicture_wellFormed:
  "wellFormed (initializePicture caseId caseType caseTitle components)"
  by (simp add: wellFormed_def initializePicture_def)

lemma assemblePicture_invariant:
  assumes wf: "wellFormed p"
  shows "\<exists>a. assemblePicture p = Inr a \<and> wellFormed a \<and>
             mset (pic_placedComponents a) + mset (pic_unplacedComponents a) =
               mset (pic_placedComponents p) + mset (pic_unplacedComponents p) \<and>
             pic_components a = pic_components p \<and>
             map withoutPlacement (pic_heap a) = map withoutPlacement (pic_heap p) \<and>
             pic_completionPercentage a =
               js_times (js_div_length (length (pic_placedComponents a))
                                       (length (pic_components a))) 100"
proof -
  from assembleRun_invariant[OF wf]
  obtain a where a: "fst (assembleRun p) = Inr a" "wellFormed a"
    "mset (pic_placedComponents a) + mset (pic_unplacedComponents a) =
       mset (pic_placedComponents p) + mset (pic_unplacedComponents p)"
    "pic_components a = pic_components p"
    "map withoutPlacement (pic_heap a) = map withoutPlacement (pic_heap p)"
    by blast
  let ?done = "a\<lparr> pic_completionPercentage :=
                 js_times (js_div_length (length (pic_placedComponents a))
                                         (length (pic_components a))) 100 \<rparr>"
  have "assemblePicture p = Inr ?done"
    using a(1) by (simp add: assemblePicture_def)
  moreover have "wellFormed ?done" using a(2) by (simp add: wellFormed_def)
  ultimately show ?thesis using a(3,4,5) by auto
qed

lemma edgeGaps_eq:
  "jc_position c = Some pos \<Longrightarrow>
   edgeGaps p c es =
     Inr (map (\<lambda>e. makeGap c e (adjacentPosition pos (ce_direction e)))
              (filter (gapByCompatibility p c) es))"
  by (induction es) (auto simp: gapByCompatibility_def calculateAdjacentPosition_def)

lemma componentGaps_eq:
  "\<forall>c \<in> set cs. jc_position c \<noteq> None \<Longrightarrow>
   componentGaps p cs =
     Inr (concat (map (\<lambda>c. map (\<lambda>e. makeGap c e (adjacentPosition (the (jc_position c))
                                                    (ce_direction e)))
                             (filter (gapByCompatibility p c) (jc_edges c))) cs))"
proof (induction cs)
  case Nil
  show ?case by simp
next
  case (Cons c cs)
  from Cons.prems obtain pos where pos: "jc_position c = Some pos" by auto
  from Cons have rest: "componentGaps p cs =
     Inr (concat (map (\<lambda>c. map (\<lambda>e. makeGap c e (adjacentPosition (the (jc_position c))
                                                    (ce_direction e)))
                             (filter (gapByCompatibility p c) (jc_edges c))) cs))"
    by simp
  show ?case by (simp add: edgeGaps_eq[OF pos] rest pos)
qed

lemma identifyGaps_eq:
  assumes "wellFormed p"
  shows "identifyGaps p = Inr (p\<lparr> pic_gaps := emittedGaps p \<rparr>)"
proof -
  have "\<forall>c \<in> set (map (\<lambda>r. pic_heap p ! r) (pic_placedComponents p)). jc_position c \<noteq> None"
    using assms by (simp add: wellFormed_def)
  from componentGaps_eq[OF this, of p]
  show ?thesis by (simp add: identifyGaps_def emittedGaps_def)
qed

lemma hasConnection_cong:
  "pic_heap p = pic_heap q \<Longrightarrow> pic_placedComponents p = pic_placedComponents q \<Longrightarrow>
   hasConnection p = hasConnection q"
  by (simp add: hasConnection_def fun_eq_iff)

lemma emittedGaps_cong:
  assumes "pic_heap p = pic_heap q" "pic_placedComponents p = pic_placedComponents q"
  shows "emittedGaps p = emittedGaps q"
proof -
  have "gapByCompatibility p = gapByCompatibility q"
    using hasConnection_cong[OF assms] by (simp add: gapByCompatibility_def fun_eq_iff)
  then show ?thesis using assms by (simp add: emittedGaps_def)
qed


text \<open>The later steps copy the picture and replace conclusions and flags only.\<close>

lemma final_fields:
  "pic_heap (assessCourtReadiness (drawConclusions p)) = pic_heap p"
  "pic_components (assessCourtReadiness (drawConclusions p)) = pic_components p"
  "pic_placedComponents (assessCourtReadiness (drawConclusions p)) = pic_placedComponents p"
  "pic_unplacedComponents (assessCourtReadiness (drawConclusions p)) = pic_unplacedComponents p"
  "pic_completionPercentage (assessCourtReadiness (drawConclusions p)) = pic_completionPercentage p"
  "pic_gaps (assessCourtReadiness (drawConclusions p)) = pic_gaps p"
  by (simp_all add: assessCourtReadiness_def drawConclusions_def Let_def)

text \<open>
  \<open>processFragments\<close> throws no error: it returns the picture that the last two steps
  make of the assembled picture with its gaps.
\<close>

lemma processFragments_Inr:
  "\<exists>a res.
     assemblePicture (initializePicture caseId caseType caseTitle
        (engineerEdges rt (compressFragments rt this (filterVerifiedFragments fragments)))) = Inr a \<and>
     wellFormed a \<and>
     processFragments rt this fragments caseId caseType caseTitle = Inr res \<and>
     res_picture res =
       assessCourtReadiness (drawConclusions (a\<lparr> pic_gaps := emittedGaps a \<rparr>)) \<and>
     res_fragmentsProcessed res = length fragments \<and>
     res_componentsCreated res =
       length (compressFragments rt this (filterVerifiedFragments fragments)) \<and>
     res_componentsPlaced res = length (pic_placedComponents a) \<and>
     res_gapsIdentified res = length (emittedGaps a)"
proof -
  let ?start = "initializePicture caseId caseType caseTitle
        (engineerEdges rt (compressFragments rt this (filterVerifiedFragments fragments)))"
  have "wellFormed ?start" by (rule initializePicture_wellFormed)
  from assemblePicture_invariant[OF this]
  obtain a where a: "assemblePicture ?start = Inr a" "wellFormed a" by blast
  have gaps: "identifyGaps a = Inr (a\<lparr> pic_gaps := emittedGaps a \<rparr>)"
    using a(2) by (rule identifyGaps_eq)
  show ?thesis
    using a by (simp add: processFragments_def Let_def gaps final_fields)
qed

lemma map_snd_enumerate_comp: "map (f \<circ> snd) (enumerate n xs) = map f xs"
  by (metis map_map map_snd_enumerate)

lemma compressFragments_fragmentId:
  "map jc_fragmentId (compressFragments rt this fs) = map tf_id fs"
proof -
  have "map jc_fragmentId (compressFragments rt this fs) = map (tf_id \<circ> snd) (enumerate 0 fs)"
    by (simp add: compressFragments_def compressFragment_def Let_def case_prod_beta comp_def)
  then show ?thesis by (simp only: map_snd_enumerate_comp)
qed

lemma engineerEdges_withoutEdges:
  "map jc_fragmentId (engineerEdges rt cs) = map jc_fragmentId cs"
proof -
  have "map jc_fragmentId (engineerEdges rt cs) = map (jc_fragmentId \<circ> snd) (enumerate 0 cs)"
    by (simp add: engineerEdges_def case_prod_beta comp_def)
  then show ?thesis by (simp only: map_snd_enumerate_comp)
qed

lemma length_engineerEdges: "length (engineerEdges rt cs) = length cs"
  by (simp add: engineerEdges_def)

lemma length_compressFragments: "length (compressFragments rt this fs) = length fs"
  by (simp add: compressFragments_def)

lemma filterVerifiedFragments_eligible:
  "filterVerifiedFragments fragments = filter reconstructionEligible fragments"
  by (simp add: filterVerifiedFragments_def reconstructionEligible_def[abs_def])

lemma fragmentId_withoutPlacement:
  "map jc_fragmentId xs = map jc_fragmentId (map withoutPlacement xs)"
  by (simp add: withoutPlacement_def comp_def)

text \<open>The run as a whole: the assembled picture against the eligible fragments.\<close>

lemma processFragments_picture:
  "\<exists>res. processFragments rt this fragments caseId caseType caseTitle = Inr res \<and>
     wellFormed (res_picture res) \<and>
     res_componentsCreated res = length (filter reconstructionEligible fragments) \<and>
     res_gapsIdentified res = length (emittedGaps (res_picture res)) \<and>
     pic_gaps (res_picture res) = emittedGaps (res_picture res) \<and>
     map jc_fragmentId (pic_heap (res_picture res)) =
       map tf_id (filter reconstructionEligible fragments) \<and>
     pic_components (res_picture res) = [0..<length (filter reconstructionEligible fragments)] \<and>
     mset (pic_placedComponents (res_picture res)) +
       mset (pic_unplacedComponents (res_picture res)) = mset (pic_components (res_picture res)) \<and>
     pic_completionPercentage (res_picture res) =
       js_times (js_div_length (length (pic_placedComponents (res_picture res)))
                               (length (pic_components (res_picture res)))) 100"
proof -
  let ?fs = "filter reconstructionEligible fragments"
  let ?cs = "engineerEdges rt (compressFragments rt this (filterVerifiedFragments fragments))"
  let ?start = "initializePicture caseId caseType caseTitle ?cs"
  have wf: "wellFormed ?start" by (rule initializePicture_wellFormed)
  from processFragments_Inr[of caseId caseType caseTitle rt this fragments]
  obtain a res where a: "assemblePicture ?start = Inr a" "wellFormed a"
    and res: "processFragments rt this fragments caseId caseType caseTitle = Inr res"
      "res_picture res = assessCourtReadiness (drawConclusions (a\<lparr> pic_gaps := emittedGaps a \<rparr>))"
      "res_componentsCreated res =
         length (compressFragments rt this (filterVerifiedFragments fragments))"
      "res_gapsIdentified res = length (emittedGaps a)"
    by blast
  from assemblePicture_invariant[OF wf] a(1)
  have inv: "mset (pic_placedComponents a) + mset (pic_unplacedComponents a) =
               mset (pic_placedComponents ?start) + mset (pic_unplacedComponents ?start)"
    "pic_components a = pic_components ?start"
    "map withoutPlacement (pic_heap a) = map withoutPlacement (pic_heap ?start)"
    "pic_completionPercentage a =
       js_times (js_div_length (length (pic_placedComponents a)) (length (pic_components a))) 100"
    by auto
  let ?p = "res_picture res"
  have heap: "pic_heap ?p = pic_heap a" and placed: "pic_placedComponents ?p = pic_placedComponents a"
    and unplaced: "pic_unplacedComponents ?p = pic_unplacedComponents a"
    and comps: "pic_components ?p = pic_components a"
    and compl: "pic_completionPercentage ?p = pic_completionPercentage a"
    and gaps: "pic_gaps ?p = emittedGaps a"
    by (simp_all add: res(2) final_fields)
  have eg: "emittedGaps ?p = emittedGaps a"
    using heap placed by (rule emittedGaps_cong)
  have len: "length ?cs = length ?fs"
    by (simp add: length_engineerEdges length_compressFragments filterVerifiedFragments_eligible)
  have "wellFormed ?p"
    using a(2) by (simp add: wellFormed_def heap placed unplaced)
  moreover have "res_componentsCreated res = length ?fs"
    by (simp add: res(3) length_compressFragments filterVerifiedFragments_eligible)
  moreover have "map jc_fragmentId (pic_heap ?p) = map tf_id ?fs"
  proof -
    have "map jc_fragmentId (pic_heap ?p) = map jc_fragmentId (map withoutPlacement (pic_heap a))"
      by (simp only: heap fragmentId_withoutPlacement[symmetric])
    also have "\<dots> = map jc_fragmentId (pic_heap ?start)"
      by (simp only: inv(3) fragmentId_withoutPlacement[symmetric])
    also have "\<dots> = map tf_id ?fs"
      by (simp add: initializePicture_def engineerEdges_withoutEdges compressFragments_fragmentId
            filterVerifiedFragments_eligible)
    finally show ?thesis .
  qed
  moreover have "pic_components ?p = [0..<length ?fs]"
    using len by (simp add: comps inv(2) initializePicture_def)
  moreover have "mset (pic_placedComponents ?p) + mset (pic_unplacedComponents ?p) =
                 mset (pic_components ?p)"
    by (simp add: placed unplaced comps inv(1,2) initializePicture_def)
  ultimately show ?thesis
    using res(1) by (simp add: eg gaps res(4) compl inv(4) placed comps)
qed

lemma completion_percentage_cases:
  "\<exists>res. processFragments rt this fragments caseId caseType caseTitle = Inr res \<and>
     (filter reconstructionEligible fragments = [] \<longrightarrow>
        pic_completionPercentage (res_picture res) = NaN) \<and>
     (filter reconstructionEligible fragments \<noteq> [] \<longrightarrow>
        (\<exists>c. pic_completionPercentage (res_picture res) = Fin c \<and> 0 \<le> c \<and> c \<le> 100))"
proof -
  from processFragments_picture[of rt this fragments caseId caseType caseTitle]
  obtain res where res: "processFragments rt this fragments caseId caseType caseTitle = Inr res"
    and comps: "pic_components (res_picture res) =
                  [0..<length (filter reconstructionEligible fragments)]"
    and part: "mset (pic_placedComponents (res_picture res)) +
                 mset (pic_unplacedComponents (res_picture res)) =
               mset (pic_components (res_picture res))"
    and compl: "pic_completionPercentage (res_picture res) =
       js_times (js_div_length (length (pic_placedComponents (res_picture res)))
                               (length (pic_components (res_picture res)))) 100"
    by blast
  let ?n = "length (filter reconstructionEligible fragments)"
  let ?p = "length (pic_placedComponents (res_picture res))"
  have n: "length (pic_components (res_picture res)) = ?n" by (simp add: comps)
  have "size (mset (pic_placedComponents (res_picture res)) +
              mset (pic_unplacedComponents (res_picture res))) = ?n"
    by (simp only: part size_mset n)
  then have le: "?p \<le> ?n" by simp
  have none: "pic_completionPercentage (res_picture res) = NaN"
    if "filter reconstructionEligible fragments = []"
    using that le by (simp add: compl n js_div_length_def)
  have some: "\<exists>c. pic_completionPercentage (res_picture res) = Fin c \<and> 0 \<le> c \<and> c \<le> 100"
    if "filter reconstructionEligible fragments \<noteq> []"
  proof -
    from that have pos: "0 < ?n" by simp
    have "pic_completionPercentage (res_picture res) = Fin (real ?p / real ?n * 100)"
      using pos by (simp add: compl n js_div_length_def)
    moreover have "0 \<le> real ?p / real ?n * 100" by simp
    moreover have "real ?p / real ?n \<le> 1" using le pos by simp
    then have "real ?p / real ?n * 100 \<le> 1 * 100"
      by (rule mult_right_mono) simp
    then have "real ?p / real ?n * 100 \<le> 100" by simp
    ultimately show ?thesis by blast
  qed
  from res none some show ?thesis by blast
qed






section \<open>CVK 1100: facts about a verification\<close>

lemma check_list_lengths:
  "length (performRealityChecks rt input) = 5"
  "length (performTruthChecks input context) = 4"
  "length (performNecessityChecks rt input context) = 3"
  "length (performCrossReferences rt input context) = Suc (length (ri_provenance input))"
  by (simp_all add: performRealityChecks_def performTruthChecks_def performNecessityChecks_def
        performCrossReferences_def Let_def)




lemma reality_confidence_sum:
  "0 \<le> sum_list (map rc_confidence (performRealityChecks rt input)) \<and>
   sum_list (map rc_confidence (performRealityChecks rt input)) \<le> 470"
  by (simp add: performRealityChecks_def Let_def min_def)

lemma truth_confidence_sum:
  "160 + 20 * real (length (filter pr_verified (ri_provenance input))) \<le>
     sum_list (map tc_confidence (performTruthChecks input context)) \<and>
   sum_list (map tc_confidence (performTruthChecks input context)) \<le>
     265 + 20 * real (length (filter pr_verified (ri_provenance input)))"
  by (simp add: performTruthChecks_def Let_def)

lemma necessity_relevance_sum:
  "160 \<le> sum_list (map nc_relevance (performNecessityChecks rt input context)) \<and>
   sum_list (map nc_relevance (performNecessityChecks rt input context)) \<le> 270"
  by (simp add: performNecessityChecks_def calculateRelevance_def Let_def min_def)

lemma matchScore_sum:
  "40 * real (length ps) \<le>
     sum_list (map (\<lambda>prov. if pr_verified prov then 90 else (40::real)) ps) \<and>
   sum_list (map (\<lambda>prov. if pr_verified prov then 90 else (40::real)) ps) \<le>
     90 * real (length ps)"
  by (induction ps) auto

lemma crossRef_score:
  "0 \<le> sum_list (map cr_matchScore (performCrossReferences rt input context)) /
         real (length (performCrossReferences rt input context)) \<and>
   sum_list (map cr_matchScore (performCrossReferences rt input context)) /
         real (length (performCrossReferences rt input context)) \<le> 90"
proof -
  let ?ps = "ri_provenance input"
  let ?s = "sum_list (map (\<lambda>prov. if pr_verified prov then 90 else (40::real)) ?ps)"
  have sum: "sum_list (map cr_matchScore (performCrossReferences rt input context)) = ?s + 85"
    by (simp add: performCrossReferences_def comp_def)
  have len: "real (length (performCrossReferences rt input context)) = real (length ?ps) + 1"
    by (simp add: performCrossReferences_def)
  from matchScore_sum[of ?ps] have b: "0 \<le> ?s + 85" "?s + 85 \<le> 90 * (real (length ?ps) + 1)"
    by auto
  have pos: "0 < real (length ?ps) + 1" by simp
  from b(1) pos have "0 \<le> (?s + 85) / (real (length ?ps) + 1)" by simp
  moreover from b(2) pos have "(?s + 85) / (real (length ?ps) + 1) \<le> 90"
    by (simp add: pos_divide_le_eq)
  ultimately show ?thesis by (simp only: sum len)
qed

text \<open>
  The confidence is never negative, and it stays within 100 as long as at most ten
  provenance records are verified.
\<close>

lemma confidence_bounds:
  "0 \<le> v_confidence (verifyInput rt this input context) \<and>
   (length (filter pr_verified (ri_provenance input)) \<le> 10 \<longrightarrow>
      v_confidence (verifyInput rt this input context) \<le> 100)"
proof -
  let ?R = "sum_list (map rc_confidence (performRealityChecks rt input))"
  let ?T = "sum_list (map tc_confidence (performTruthChecks input context))"
  let ?N = "sum_list (map nc_relevance (performNecessityChecks rt input context))"
  let ?X = "sum_list (map cr_matchScore (performCrossReferences rt input context)) /
            real (length (performCrossReferences rt input context))"
  let ?k = "real (length (filter pr_verified (ri_provenance input)))"
  have conf: "v_confidence (verifyInput rt this input context) =
      ?R / 5 * 0.3 + ?T / 4 * 0.3 + ?N / 3 * 0.2 + ?X * 0.2"
    by (simp add: verifyInput_def calculateConfidence_def check_list_lengths Let_def)
  note rb = reality_confidence_sum[of rt input]
    and tb = truth_confidence_sum[of input "context"]
    and nb = necessity_relevance_sum[of rt input "context"]
    and xb = crossRef_score[of rt input "context"]
  have k0: "0 \<le> ?k" by simp
  have low: "0 \<le> ?R / 5 * 0.3 + ?T / 4 * 0.3 + ?N / 3 * 0.2 + ?X * 0.2"
    using rb tb nb xb k0 by simp
  have high: "?R / 5 * 0.3 + ?T / 4 * 0.3 + ?N / 3 * 0.2 + ?X * 0.2 \<le> 100" if "?k \<le> 10"
    using rb tb nb xb that by simp
  have "length (filter pr_verified (ri_provenance input)) \<le> 10 \<Longrightarrow> ?k \<le> 10"
    by simp
  with low high show ?thesis by (simp only: conf) blast
qed

section \<open>Evaluating the examples\<close>

lemma showNat_digit: "n < 10 \<Longrightarrow> showNat n = [''0123456789'' ! n]"
  by (subst showNat.simps) simp

lemmas jigsaw_defs =
  processFragments_def filterVerifiedFragments_def compressFragments_def
  compressFragment_def generateShape_def determineTopology_def calculateWeight_def
  generateEngineeringSignature_def engineerEdges_def calculateEdges_def directions_def
  findCompatibleComponents_def shapesCanConnect_def calculateEdgeStrength_def
  generateEdgePattern_def initializePicture_def assemblePicture_def assembleRun_def
  assembleLoop.simps findBestPosition_def placeComponent_def moveToBack_def
  calculateAdjacentPosition_def adjacentPosition_def identifyGaps_def hasConnection_def
  makeGap_def suggestSources_def drawConclusions_def assessCourtReadiness_def
  calculateCourtReadiness_def js_div_length_def

lemmas example_defs =
  exampleRuntime_def otherRuntime_def exampleEngine_def otherEngine_def fragmentA_def
  fragmentB_def fragmentLow_def fragmentMarker_def fragmentPlace_def queuePicture_def
  showNat_digit enumerate_eq_zip upt_rec Let_def

















section \<open>Evaluating the verification examples\<close>

lemma content_not_actionable:
  "list_ex (\<lambda>pattern. regexTest pattern ''Loan agreement with variable rate'') actionablePatterns = False"
  by code_simp

lemma inputs_not_actionable:
  "isActionableIntelligence loanInput exampleContext = False"
  "isActionableIntelligence emptySourceInput exampleContext = False"
  "isActionableIntelligence manySourcesInput exampleContext = False"
  by (simp_all add: isActionableIntelligence_def loanInput_def emptySourceInput_def
        manySourcesInput_def content_not_actionable)

lemma loanInput_fields:
  "ri_id loanInput = ''IN-1''" "ri_source loanInput = ''Loan file''"
  "ri_sourceType loanInput = legal_document"
  "length (ri_content loanInput) = 33"
  "ri_timestamp loanInput = 1700000000000" "ri_jurisdiction loanInput = IE"
  "ri_provenance loanInput = [verifiedRecord, verifiedRecord]"
  by (simp_all add: loanInput_def)

lemma emptySourceInput_fields:
  "ri_id emptySourceInput = ''IN-2''" "ri_source emptySourceInput = []"
  "ri_sourceType emptySourceInput = legal_document"
  "length (ri_content emptySourceInput) = 33"
  "ri_timestamp emptySourceInput = 1700000000000" "ri_jurisdiction emptySourceInput = IE"
  "ri_provenance emptySourceInput = [verifiedRecord, verifiedRecord]"
  by (simp_all add: emptySourceInput_def loanInput_def)

lemma manySourcesInput_fields:
  "ri_id manySourcesInput = ''IN-3''" "ri_source manySourcesInput = ''Loan file''"
  "ri_sourceType manySourcesInput = legal_document"
  "length (ri_content manySourcesInput) = 33"
  "ri_timestamp manySourcesInput = 1700000000000" "ri_jurisdiction manySourcesInput = IE"
  "ri_provenance manySourcesInput = replicate 20 verifiedRecord"
  by (simp_all add: manySourcesInput_def loanInput_def)

lemma exampleContext_fields:
  "cc_caseId exampleContext = ''CASE-1''" "cc_caseType exampleContext = ''predatory_lending''"
  "cc_startDate exampleContext = 1600000000000" "cc_jurisdictions exampleContext = [IE, UK]"
  by (simp_all add: exampleContext_def)

lemma exampleRuntime_clock:
  "rt_now exampleRuntime k = 1767225600000 + int k"
  "rt_getFullYear exampleRuntime = utcFullYear"
  by (simp_all add: exampleRuntime_def)

lemma verifiedRecord_fields: "pr_verified verifiedRecord = True"
  by (simp add: verifiedRecord_def)

lemma year_2023: "utcFullYear 1700000000000 = 2023"
  by (simp add: utcFullYear_def Let_def)

lemmas cvk_defs =
  verifyInput_def performRealityChecks_def performTruthChecks_def performNecessityChecks_def
  performCrossReferences_def detectAnomalies_def calculateVerificationLevel_def
  calculateConfidence_def calculateRelevance_def relevantSourceTypes_def validSourceTypes_def

lemmas cvk_example_facts =
  inputs_not_actionable loanInput_fields emptySourceInput_fields manySourcesInput_fields
  exampleContext_fields exampleRuntime_clock verifiedRecord_fields year_2023 Let_def



lemma manySources_eval:
  "(let r = verifyInput exampleRuntime exampleCVK manySourcesInput exampleContext
    in (v_isReal r, v_isTrue r, v_isNeeded r, v_verificationLevel r, v_confidence r, v_rejected r,
        map_option tf_confidence (v_fragment r))) =
   (True, True, True, 10, 2181733 / 21000, False, Some (2181733 / 21000))"
  by (simp add: cvk_defs cvk_example_facts createTruthFragment_def sum_list_replicate
        list_ex_iff cong: let_weak_cong)

section \<open>Claim C1: one component per eligible fragment\<close>



section \<open>Claim C2: when an input is rejected\<close>



section \<open>Claim C3: the range of the confidence\<close>

text \<open>
  Claim C3 says that the confidence \<open>verifyInput\<close> produces lies in [0,100]. The
  confidence of the truth check "External source corroboration" is 20 times the number
  of verified provenance records, without a cap, so the weighted average is not
  bounded: on an input with 20 verified provenance records the confidence is
  2181733/21000, about 103.9, the input is accepted and the fragment carries that
  confidence. (The confidence is never negative, and it is at most 100 when no more
  than ten provenance records are verified: \<open>confidence_bounds\<close>.)
\<close>

theorem confidence_exceeds_100:
  "v_confidence (verifyInput exampleRuntime exampleCVK manySourcesInput exampleContext) =
     2181733 / 21000 \<and>
   \<not> v_rejected (verifyInput exampleRuntime exampleCVK manySourcesInput exampleContext) \<and>
   map_option tf_confidence
     (v_fragment (verifyInput exampleRuntime exampleCVK manySourcesInput exampleContext)) =
     Some (2181733 / 21000) \<and>
   (100::real) < 2181733 / 21000"
  using manySources_eval by (simp add: Let_def)

theorem confidence_exceeds_100_witness:
  "100 < v_confidence (verifyInput exampleRuntime exampleCVK manySourcesInput exampleContext)"
  using confidence_exceeds_100 by simp

section \<open>Claim C4: the completion percentage\<close>

text \<open>
  Claim C4 says that the completion percentage lies between 0 and 100 for every set of
  verified fragments, the empty set included. \<open>assemblePicture\<close> divides the number of
  placed components by the number of components without a guard: when no fragment
  is eligible the quotient is \<open>0 / 0\<close>, which is NaN, and NaN is neither
  \<open>>= 0\<close> nor \<open><= 100\<close>. The theorem evaluates the run on the empty list and on a
  list whose only fragment has level 3. (With at least one eligible fragment the
  percentage is a number between 0 and 100: \<open>completion_percentage_cases\<close>.)
\<close>

theorem completion_is_NaN_without_components:
  "(case processFragments exampleRuntime exampleEngine [] ''CASE-1'' fraud ''Example'' of
      Inl err \<Rightarrow> False
    | Inr res \<Rightarrow>
        pic_completionPercentage (res_picture res) = NaN \<and>
        \<not> js_ge (pic_completionPercentage (res_picture res)) 0 \<and>
        \<not> js_le (pic_completionPercentage (res_picture res)) 100) \<and>
   (case processFragments exampleRuntime exampleEngine [fragmentLow] ''CASE-1'' fraud ''Example'' of
      Inl err \<Rightarrow> False
    | Inr res \<Rightarrow>
        res_fragmentsProcessed res = 1 \<and>
        pic_completionPercentage (res_picture res) = NaN \<and>
        \<not> js_ge (pic_completionPercentage (res_picture res)) 0 \<and>
        \<not> js_le (pic_completionPercentage (res_picture res)) 100)"
proof -
  have low: "filter reconstructionEligible [fragmentLow] = []"
    by (simp add: reconstructionEligible_def fragmentLow_def fragmentA_def)
  from completion_percentage_cases[of exampleRuntime exampleEngine "[]"
      "''CASE-1''" fraud "''Example''"]
  obtain r0 where r0: "processFragments exampleRuntime exampleEngine [] ''CASE-1'' fraud
      ''Example'' = Inr r0" "pic_completionPercentage (res_picture r0) = NaN"
    by auto
  from completion_percentage_cases[of exampleRuntime exampleEngine "[fragmentLow]"
      "''CASE-1''" fraud "''Example''"] low
  obtain r1 where r1: "processFragments exampleRuntime exampleEngine [fragmentLow] ''CASE-1'' fraud
      ''Example'' = Inr r1" "pic_completionPercentage (res_picture r1) = NaN"
    by auto
  from processFragments_Inr[of "''CASE-1''" fraud "''Example''" exampleRuntime exampleEngine
      "[fragmentLow]"] r1(1)
  have "res_fragmentsProcessed r1 = 1" by auto
  with r0 r1 show ?thesis by simp
qed

section \<open>Claim C5: when a gap is emitted\<close>




section \<open>Claim C6: which shapes connect\<close>




section \<open>Claim C7: the assembly loop stops within its budget\<close>

text \<open>
  Claim C7. For every initial picture the assembly loop of \<open>assemblePicture\<close> ends, and
  it executes at most ten iterations per component that was in the queue before
  assembly; the picture that \<open>initializePicture\<close> builds has every component in
  the queue, so there the bound is ten times the number of components. The loop is the total function \<open>assembleLoop\<close>, whose second result is the
  number of iterations executed; \<open>assembleRun\<close> is the loop as \<open>assemblePicture\<close>
  starts it. For a well-formed picture the loop throws no error, every component in the
  queue of the returned picture was in the queue at the start, is not among the placed
  components, and is the unchanged object (so still without position and unlocked);
  and when the queue of the returned picture is not empty, the budget was used up.
\<close>

theorem assembly_stops_within_budget:
  "snd (assembleRun picture) \<le> length (pic_unplacedComponents picture) * 10 \<and>
   (wellFormed picture \<longrightarrow>
      (\<exists>a. assemblePicture picture = Inr a \<and>
           (\<forall>r \<in> set (pic_unplacedComponents a).
               r \<in> set (pic_unplacedComponents picture) \<and>
               r \<notin> set (pic_placedComponents a) \<and>
               pic_heap a ! r = pic_heap picture ! r) \<and>
           (pic_unplacedComponents a \<noteq> [] \<longrightarrow>
              snd (assembleRun picture) = length (pic_unplacedComponents picture) * 10))) \<and>
   snd (assembleRun (initializePicture caseId caseType caseTitle components)) \<le>
     length components * 10"
proof (intro conjI impI)
  show "snd (assembleRun picture) \<le> length (pic_unplacedComponents picture) * 10"
    by (rule assembleRun_iterations_le)
next
  assume wf: "wellFormed picture"
  from assembleRun_invariant[OF wf]
  obtain a where a: "fst (assembleRun picture) = Inr a" "wellFormed a"
    "set (pic_unplacedComponents a) \<subseteq> set (pic_unplacedComponents picture)"
    "\<forall>r \<in> set (pic_unplacedComponents a). pic_heap a ! r = pic_heap picture ! r"
    "pic_unplacedComponents a \<noteq> [] \<longrightarrow>
       snd (assembleRun picture) = length (pic_unplacedComponents picture) * 10"
    by blast
  let ?done = "a\<lparr> pic_completionPercentage :=
                 js_times (js_div_length (length (pic_placedComponents a))
                                         (length (pic_components a))) 100 \<rparr>"
  have "assemblePicture picture = Inr ?done"
    using a(1) by (simp add: assemblePicture_def)
  moreover have "\<forall>r \<in> set (pic_unplacedComponents ?done).
       r \<in> set (pic_unplacedComponents picture) \<and> r \<notin> set (pic_placedComponents ?done) \<and>
       pic_heap ?done ! r = pic_heap picture ! r"
    using a(2,3,4) by (auto simp: wellFormed_def)
  moreover have "pic_unplacedComponents ?done \<noteq> [] \<longrightarrow>
       snd (assembleRun picture) = length (pic_unplacedComponents picture) * 10"
    using a(5) by simp
  ultimately show "\<exists>a. assemblePicture picture = Inr a \<and>
           (\<forall>r \<in> set (pic_unplacedComponents a).
               r \<in> set (pic_unplacedComponents picture) \<and>
               r \<notin> set (pic_placedComponents a) \<and>
               pic_heap a ! r = pic_heap picture ! r) \<and>
           (pic_unplacedComponents a \<noteq> [] \<longrightarrow>
              snd (assembleRun picture) = length (pic_unplacedComponents picture) * 10)"
    by blast
next
  show "snd (assembleRun (initializePicture caseId caseType caseTitle components)) \<le>
     length components * 10"
    using assembleRun_iterations_le[of "initializePicture caseId caseType caseTitle components"]
    by (simp add: initializePicture_def)
qed

theorem assembly_stops_within_budget_witness:
  "wellFormed queuePicture \<and>
   snd (assembleRun queuePicture) \<le> length (pic_unplacedComponents queuePicture) * 10 \<and>
   (\<exists>a. assemblePicture queuePicture = Inr a \<and>
        pic_unplacedComponents a = [1] \<and>
        1 \<notin> set (pic_placedComponents a) \<and>
        pic_heap a ! 1 = pic_heap queuePicture ! 1 \<and>
        snd (assembleRun queuePicture) = 20)"
proof -
  have wf: "wellFormed queuePicture"
    by (simp add: wellFormed_def queuePicture_def initializePicture_def compressFragments_def
          upt_rec)
  have len: "length (pic_unplacedComponents queuePicture) = 2"
    by (simp add: queuePicture_def initializePicture_def compressFragments_def)
  have queue: "map_sum (\<lambda>e. e) pic_unplacedComponents (assemblePicture queuePicture) = Inr [1]"
    by (simp add: jigsaw_defs example_defs)
  note budget = assembly_stops_within_budget[of queuePicture "''CASE-1''" fraud "''Example''"
      "compressFragments exampleRuntime exampleEngine [fragmentA, fragmentB]"]
  from budget wf obtain a where a: "assemblePicture queuePicture = Inr a"
    and still: "\<forall>r \<in> set (pic_unplacedComponents a).
        r \<in> set (pic_unplacedComponents queuePicture) \<and>
        r \<notin> set (pic_placedComponents a) \<and>
        pic_heap a ! r = pic_heap queuePicture ! r"
    and used: "pic_unplacedComponents a \<noteq> [] \<longrightarrow>
        snd (assembleRun queuePicture) = length (pic_unplacedComponents queuePicture) * 10"
    by blast
  from queue a have q: "pic_unplacedComponents a = [1]" by simp
  from still q have "1 \<notin> set (pic_placedComponents a)"
    and "pic_heap a ! 1 = pic_heap queuePicture ! 1" by simp_all
  moreover from used q len have "snd (assembleRun queuePicture) = 20" by simp
  moreover from budget have
    "snd (assembleRun queuePicture) \<le> length (pic_unplacedComponents queuePicture) * 10"
    by blast
  ultimately show ?thesis using wf a q by blast
qed

section \<open>Claim C8: the shape fingerprint is reproducible\<close>



section \<open>Claim C9: every input is needed\<close>



section \<open>Claim C10: placed and unplaced components partition the components\<close>



end
